theory Spec2Isabelle
  imports Complex_Main "HOL-Library.Multiset" "HOL-Library.Product_Lexorder"
begin

section \<open>The position ledger of app.py\<close>

text \<open>
  The program keeps one table of trades in a spreadsheet. Every operation reads the whole
  table through \<open>get_data\<close>, changes the pandas DataFrame in memory and writes the whole
  table back through \<open>save_data\<close>. This theory embeds the ledger functions of
  \<^verbatim>\<open>src/app.py\<close> (lines 13 to 158): the loader with its coercions, the writer, the three
  mutating operations and the two queries.

  Conventions of the embedding.
  \<^item> A Python \<open>str\<close> is a \<open>string\<close>; a character outside ASCII stands as its UTF-8 bytes.
  \<^item> A Python or numpy float is a rational number: rounding and infinities are not
    modelled. The missing value NaN is a cell of its own. The 64-bit range of pandas
    integers is modelled where the loader casts a column with \<open>astype(int)\<close>.
  \<^item> What pandas, numpy and Python do where the program does not fix it itself (reading a
    number out of a string, reading dates out of a column that is not in the layout
    \<open>save_data\<close> writes, printing a float, casting a number that int64 does not hold,
    converting an integer that float64 does not hold) is a parameter of the model, the
    record \<open>pylib\<close>.
\<close>

subsection \<open>Cells, dates and rows\<close>

text \<open>An untyped value as it sits in a DataFrame column of dtype object, or in the sheet.\<close>

datatype cell =
    CNone
  | CNaN
  | CInt int
  | CNum rat
  | CStr string

text \<open>A \<open>datetime.date\<close>, as the date inputs of the forms deliver it.\<close>

record pydate =
  dyear :: nat
  dmonth :: nat
  dday :: nat

text \<open>
  A pandas \<open>Timestamp\<close>: calendar date and time of day (\<open>tod\<close>, counted from midnight).
  NaT is \<open>None\<close> of \<open>timestamp option\<close>.
\<close>

record timestamp =
  year :: nat
  month :: nat
  day :: nat
  tod :: nat

datatype py_error = ZeroDivisionError

text \<open>
  \<open>num_of_str\<close>: the number \<open>pd.to_numeric\<close> reads out of a string, if any.
  \<open>date_of_cell col c\<close>: the timestamp \<open>pd.to_datetime\<close> reads out of the cell \<open>c\<close> of the
  column \<open>col\<close>, if any; pandas settles the layout of the dates for the column as a whole.
  \<open>repr_float\<close>: \<open>str\<close> of a float. \<open>big_int\<close>: what \<open>astype(int)\<close> makes of a number outside
  the range of int64, which numpy leaves to the platform. \<open>wide_int\<close>: the number
  \<open>pd.to_numeric\<close> makes of an integer that float64 does not hold exactly; it is that
  integer where the column stays a column of integers and the nearest float where it
  does not.
\<close>

record pylib =
  num_of_str :: "string \<Rightarrow> rat option"
  date_of_cell :: "cell list \<Rightarrow> cell \<Rightarrow> timestamp option"
  repr_float :: "rat \<Rightarrow> string"
  big_int :: "rat \<Rightarrow> int"
  wide_int :: "int \<Rightarrow> rat"

text \<open>
  One row of the DataFrame that \<open>get_data\<close> returns. The loader coerces \<open>id\<close>,
  \<open>buy_price\<close>, \<open>sell_price\<close>, \<open>quantity\<close>, \<open>pnl\<close> and the two dates (lines 43 to 51), so
  these fields are typed; \<open>symbol\<close>, \<open>pnl_percent\<close>, \<open>status\<close> and \<open>notes\<close> are left as
  they were read, so these fields are cells.
\<close>

record trade =
  id_col :: int
  symbol :: cell
  buy_price :: rat
  sell_price :: rat
  quantity :: int
  open_date :: "timestamp option"
  close_date :: "timestamp option"
  pnl :: rat
  pnl_percent :: cell
  status :: cell
  notes_col :: cell

text \<open>A DataFrame: its column labels and its rows, in storage order.\<close>

record frame =
  columns :: "string list"
  rows :: "trade list"

definition COLUMNS :: "string list" where
  "COLUMNS = [''id'', ''symbol'', ''buy_price'', ''sell_price'', ''quantity'',
     ''open_date'', ''close_date'', ''pnl'', ''pnl_percent'', ''status'', ''notes'']"

text \<open>\<open>df.empty\<close>: an axis of length 0.\<close>

definition df_empty :: "frame \<Rightarrow> bool" where
  "df_empty df = (rows df = [] \<or> columns df = [])"

subsection \<open>Python values\<close>

text \<open>Truth value of a cell, as \<open>if old_notes\<close> tests it: NaN is a non-zero float.\<close>

fun truthy :: "cell \<Rightarrow> bool" where
  "truthy CNone = False"
| "truthy CNaN = True"
| "truthy (CInt i) = (i \<noteq> 0)"
| "truthy (CNum r) = (r \<noteq> 0)"
| "truthy (CStr s) = (s \<noteq> [])"

definition digit_char :: "nat \<Rightarrow> char" where
  "digit_char n = char_of (48 + n)"

fun str_nat :: "nat \<Rightarrow> string" where
  "str_nat n = (if n < 10 then [digit_char n] else str_nat (n div 10) @ [digit_char (n mod 10)])"

definition str_int :: "int \<Rightarrow> string" where
  "str_int i = (if i < 0 then CHR ''-'' # str_nat (nat (- i)) else str_nat (nat i))"

text \<open>\<open>str(v)\<close>.\<close>

fun str_py :: "pylib \<Rightarrow> cell \<Rightarrow> string" where
  "str_py P CNone = ''None''"
| "str_py P CNaN = ''nan''"
| "str_py P (CInt i) = str_int i"
| "str_py P (CNum r) = repr_float P r"
| "str_py P (CStr s) = s"

definition upper_char :: "char \<Rightarrow> char" where
  "upper_char c =
     (if (97::nat) \<le> of_char c \<and> of_char c \<le> (122::nat)
      then char_of ((of_char c :: nat) - 32) else c)"

text \<open>\<open>symbol.upper()\<close>, on the ASCII letters.\<close>

definition upper :: "string \<Rightarrow> string" where
  "upper s = map upper_char s"

text \<open>Division, with the zero divisor as the error a Python float raises there.\<close>

definition py_div :: "rat \<Rightarrow> rat \<Rightarrow> py_error + rat" where
  "py_div a b = (if b = 0 then Inl ZeroDivisionError else Inr (a / b))"

text \<open>\<open>pd.to_datetime\<close> of a \<open>datetime.date\<close>: that day at midnight.\<close>

definition to_datetime_date :: "pydate \<Rightarrow> timestamp" where
  "to_datetime_date d = \<lparr>year = dyear d, month = dmonth d, day = dday d, tod = 0\<rparr>"

subsection \<open>The operations on the DataFrame\<close>

text \<open>
  Lines 84 to 87 of \<open>add_buy_position\<close>: the next id is 1 unless the table has rows, an
  \<open>id\<close> column and a positive greatest id.
\<close>

definition next_id :: "frame \<Rightarrow> int" where
  "next_id df =
     (if \<not> df_empty df \<and> ''id'' \<in> set (columns df)
      then (if Max (set (map id_col (rows df))) > 0
            then Max (set (map id_col (rows df))) + 1 else 1)
      else 1)"

text \<open>Lines 89 to 101: the row of a new position.\<close>

definition new_row :: "int \<Rightarrow> string \<Rightarrow> rat \<Rightarrow> int \<Rightarrow> pydate \<Rightarrow> string \<Rightarrow> trade" where
  "new_row new_id symb bp qty od nts =
     \<lparr>id_col = new_id, symbol = CStr (upper symb), buy_price = bp, sell_price = 0,
      quantity = qty, open_date = Some (to_datetime_date od), close_date = None,
      pnl = 0, pnl_percent = CNum 0, status = CStr ''OPEN'', notes_col = CStr nts\<rparr>"

text \<open>
  Line 104, \<open>pd.concat([df, new_row], ignore_index=True)\<close>: the rows of \<open>df\<close>, then the new
  one; the columns of \<open>df\<close>, then those of the new row that \<open>df\<close> does not have.
\<close>

definition add_buy_position_df ::
  "string \<Rightarrow> rat \<Rightarrow> int \<Rightarrow> pydate \<Rightarrow> string \<Rightarrow> frame \<Rightarrow> frame" where
  "add_buy_position_df symb bp qty od nts df =
     \<lparr>columns = columns df @ filter (\<lambda>c. c \<notin> set (columns df)) COLUMNS,
      rows = rows df @ [new_row (next_id df) symb bp qty od nts]\<rparr>"

text \<open>Position of the first row that satisfies \<open>p\<close>: \<open>df[mask].index[0]\<close> of line 115.\<close>

fun first_index :: "('a \<Rightarrow> bool) \<Rightarrow> 'a list \<Rightarrow> nat option" where
  "first_index p [] = None"
| "first_index p (x # xs) =
     (if p x then Some 0 else map_option Suc (first_index p xs))"

text \<open>The label of the close-time note, \<open>" | <label>: "\<close>, with the label in UTF-8.\<close>

definition close_note_sep :: string where
  "close_note_sep = '' | '' @
     map char_of [0xE5, 0x8D, 0x96, 0xE5, 0x87, 0xBA, 0xE5, 0xA4, 0x87, 0xE6, 0xB3, 0xA8 :: nat]
     @ '': ''"

text \<open>Line 128.\<close>

definition new_notes :: "pylib \<Rightarrow> cell \<Rightarrow> string \<Rightarrow> cell" where
  "new_notes P old_notes nts =
     (if truthy old_notes then CStr (str_py P old_notes @ close_note_sep @ nts) else CStr nts)"

text \<open>Lines 118 to 136 on the row found: the figures, then the six assignments.\<close>

definition close_row :: "pylib \<Rightarrow> rat \<Rightarrow> pydate \<Rightarrow> string \<Rightarrow> trade \<Rightarrow> py_error + trade" where
  "close_row P sp cd nts r =
     (let cost = buy_price r * of_int (quantity r);
          revenue = sp * of_int (quantity r);
          pnl' = revenue - cost;
          pct = (if cost \<noteq> 0
                 then (case py_div pnl' cost of
                         Inl e \<Rightarrow> Inl e
                       | Inr q \<Rightarrow> Inr (CNum (q * 100)))
                 else Inr (CInt 0))
      in case pct of
           Inl e \<Rightarrow> Inl e
         | Inr pnl_percent' \<Rightarrow>
             Inr (r\<lparr>sell_price := sp, close_date := Some (to_datetime_date cd), pnl := pnl',
                    pnl_percent := pnl_percent', status := CStr ''CLOSED'',
                    notes_col := new_notes P (notes_col r) nts\<rparr>))"

text \<open>
  \<open>close_position\<close> on the DataFrame. The result says whether the table is to be saved:
  \<open>save_data\<close> is called only inside \<open>if mask.any()\<close>.
\<close>

definition close_position_df ::
  "pylib \<Rightarrow> int \<Rightarrow> rat \<Rightarrow> pydate \<Rightarrow> string \<Rightarrow> frame \<Rightarrow> py_error + frame option" where
  "close_position_df P trade_id sp cd nts df =
     (case first_index (\<lambda>r. id_col r = trade_id) (rows df) of
        None \<Rightarrow> Inr None
      | Some idx \<Rightarrow>
          (case close_row P sp cd nts (rows df ! idx) of
             Inl e \<Rightarrow> Inl e
           | Inr r' \<Rightarrow> Inr (Some (df\<lparr>rows := (rows df)[idx := r']\<rparr>))))"

text \<open>Line 144 of \<open>delete_trade\<close>.\<close>

definition delete_trade_df :: "int \<Rightarrow> frame \<Rightarrow> frame" where
  "delete_trade_df trade_id df = df\<lparr>rows := filter (\<lambda>r. id_col r \<noteq> trade_id) (rows df)\<rparr>"

text \<open>Lines 149 and 150 of \<open>get_open_positions\<close>.\<close>

definition get_open_positions_df :: "frame \<Rightarrow> frame" where
  "get_open_positions_df df =
     (if df_empty df then df
      else df\<lparr>rows := filter (\<lambda>r. status r = CStr ''OPEN'') (rows df)\<rparr>)"

subsection \<open>Closed trades, most recent first\<close>

text \<open>Timestamps compare by date, then time of day.\<close>

definition ts_key :: "timestamp \<Rightarrow> nat \<times> nat \<times> nat \<times> nat" where
  "ts_key t = (year t, month t, day t, tod t)"

text \<open>
  \<open>date_desc a b\<close>: in \<open>sort_values(by='close_date', ascending=False)\<close> a row dated \<open>a\<close>
  may stand before a row dated \<open>b\<close>. The default \<open>na_position='last'\<close> puts NaT after
  every date.
\<close>

definition date_desc :: "timestamp option \<Rightarrow> timestamp option \<Rightarrow> bool" where
  "date_desc a b =
     (case b of
        None \<Rightarrow> True
      | Some tb \<Rightarrow> (case a of None \<Rightarrow> False | Some ta \<Rightarrow> ts_key tb \<le> ts_key ta))"

text \<open>
  Line 158 calls \<open>sort_values\<close> without \<open>kind\<close>, so pandas sorts with its default
  \<open>kind='quicksort'\<close>: the result is a rearrangement of the rows that is in order. Which
  of the orders of rows with the same date comes out is decided inside numpy, whose sort
  is not part of the source and differs between platforms. The relation below holds of
  every result the call can give and of every other rearrangement in order as well; it
  is used only for what holds of all of them.
\<close>

definition sort_values_close_date_desc :: "trade list \<Rightarrow> trade list \<Rightarrow> bool" where
  "sort_values_close_date_desc inp out =
     (mset out = mset inp \<and> sorted_wrt (\<lambda>a b. date_desc (close_date a) (close_date b)) out)"

text \<open>Line 155.\<close>

definition closed_rows :: "frame \<Rightarrow> trade list" where
  "closed_rows df = filter (\<lambda>r. status r = CStr ''CLOSED'') (rows df)"

text \<open>
  \<open>get_closed_trades\<close> on the DataFrame, lines 154 to 158: \<open>out\<close> is a DataFrame the
  function may return. Line 157 converts a column that the loader already converted.
\<close>

definition get_closed_trades_df :: "frame \<Rightarrow> frame \<Rightarrow> bool" where
  "get_closed_trades_df df out =
     (if df_empty df then out = df
      else columns out = columns df \<and> sort_values_close_date_desc (closed_rows df) (rows out))"

subsection \<open>The sheet and the loader\<close>

text \<open>
  The spreadsheet that \<open>conn.update\<close> replaces and \<open>conn.read\<close> reads: a header and rows of
  untyped cells, each row a list of (column, cell). A cell without content is NaN, or the
  empty string that \<open>save_data\<close> wrote into it.
\<close>

type_synonym raw_row = "(string \<times> cell) list"

record sheet =
  header :: "string list"
  body :: "raw_row list"

definition cell_at :: "raw_row \<Rightarrow> string \<Rightarrow> cell" where
  "cell_at row c = (case map_of row c of Some v \<Rightarrow> v | None \<Rightarrow> CNaN)"

text \<open>
  \<open>conn.read\<close>: the cells come as they are, but a cell without content comes as NaN, also
  where the empty string was written into it.
\<close>

fun read_cell :: "cell \<Rightarrow> cell" where
  "read_cell (CStr s) = (if s = [] then CNaN else CStr s)"
| "read_cell c = c"

definition conn_read :: "sheet \<Rightarrow> sheet" where
  "conn_read sh =
     \<lparr>header = header sh, body = map (map (\<lambda>cv. (fst cv, read_cell (snd cv)))) (body sh)\<rparr>"

definition sheet_empty :: "sheet \<Rightarrow> bool" where
  "sheet_empty sh = (body sh = [] \<or> header sh = [])"

text \<open>Line 34.\<close>

definition existing_cols :: "sheet \<Rightarrow> string list" where
  "existing_cols sh = filter (\<lambda>c. c \<in> set (header sh)) COLUMNS"

text \<open>Lines 35 to 40: the canonical columns the sheet has, then the ones it lacks.\<close>

definition loaded_columns :: "sheet \<Rightarrow> string list" where
  "loaded_columns sh = existing_cols sh @ filter (\<lambda>c. c \<notin> set (existing_cols sh)) COLUMNS"

text \<open>The cell of column \<open>c\<close> after line 40: a column the sheet lacks is filled with None.\<close>

definition column_cell :: "sheet \<Rightarrow> raw_row \<Rightarrow> string \<Rightarrow> cell" where
  "column_cell sh row c = (if c \<in> set (header sh) then cell_at row c else CNone)"

text \<open>The integers that float64 holds exactly, whatever the dtype of their column.\<close>

definition float_int :: "int \<Rightarrow> bool" where
  "float_int i = (- (2 ^ 53) \<le> i \<and> i \<le> 2 ^ 53)"

text \<open>\<open>pd.to_numeric(..., errors='coerce')\<close> on one cell; \<open>None\<close> stands for NaN.\<close>

fun to_numeric :: "pylib \<Rightarrow> cell \<Rightarrow> rat option" where
  "to_numeric P CNone = None"
| "to_numeric P CNaN = None"
| "to_numeric P (CInt i) = Some (if float_int i then of_int i else wide_int P i)"
| "to_numeric P (CNum r) = Some r"
| "to_numeric P (CStr s) = num_of_str P s"

text \<open>\<open>.fillna(0)\<close> and \<open>.fillna(0.0)\<close>.\<close>

definition fillna0 :: "rat option \<Rightarrow> rat" where
  "fillna0 v = (case v of None \<Rightarrow> 0 | Some r \<Rightarrow> r)"

text \<open>The integers of dtype int64.\<close>

definition int64 :: "int \<Rightarrow> bool" where
  "int64 i = (- (2 ^ 63) \<le> i \<and> i < 2 ^ 63)"

definition trunc_int :: "rat \<Rightarrow> int" where
  "trunc_int r = (if 0 \<le> r then \<lfloor>r\<rfloor> else \<lceil>r\<rceil>)"

text \<open>
  \<open>.astype(int)\<close>: the fraction is cut off, towards zero, where the result is an int64;
  otherwise the cast gives what the platform makes of it.
\<close>

definition astype_int :: "pylib \<Rightarrow> rat \<Rightarrow> int" where
  "astype_int P r = (if int64 (trunc_int r) then trunc_int r else big_int P r)"

definition leap_year :: "nat \<Rightarrow> bool" where
  "leap_year y = (y mod 4 = 0 \<and> (y mod 400 = 0 \<or> y mod 100 \<noteq> 0))"

definition days_in_month :: "nat \<Rightarrow> nat \<Rightarrow> nat" where
  "days_in_month y m =
     (if m = 2 then (if leap_year y then 29 else 28)
      else if m = 4 \<or> m = 6 \<or> m = 9 \<or> m = 11 then 30 else 31)"

text \<open>
  A calendar day that a nanosecond \<open>Timestamp\<close> can hold at midnight: 1677-09-22 to
  2262-04-11.
\<close>

definition valid_ymd :: "nat \<Rightarrow> nat \<Rightarrow> nat \<Rightarrow> bool" where
  "valid_ymd y m d =
     (1 \<le> m \<and> m \<le> 12 \<and> 1 \<le> d \<and> d \<le> days_in_month y m
      \<and> (1677, 9, 22) \<le> (y, m, d) \<and> (y, m, d) \<le> (2262, 4, 11))"

definition is_digit :: "char \<Rightarrow> bool" where
  "is_digit c = ((48::nat) \<le> of_char c \<and> of_char c \<le> (57::nat))"

definition digits_val :: "string \<Rightarrow> nat" where
  "digits_val s = foldl (\<lambda>n c. 10 * n + ((of_char c :: nat) - 48)) 0 s"

text \<open>The layout \<open>YYYY-MM-DD\<close>, read as that day at midnight.\<close>

definition parse_ymd :: "string \<Rightarrow> timestamp option" where
  "parse_ymd s =
     (if length s = 10 \<and> s ! 4 = CHR ''-'' \<and> s ! 7 = CHR ''-''
         \<and> list_all is_digit (take 4 s) \<and> list_all is_digit (take 2 (drop 5 s))
         \<and> list_all is_digit (drop 8 s)
         \<and> valid_ymd (digits_val (take 4 s)) (digits_val (take 2 (drop 5 s)))
              (digits_val (drop 8 s))
      then Some \<lparr>year = digits_val (take 4 s), month = digits_val (take 2 (drop 5 s)),
                 day = digits_val (drop 8 s), tod = 0\<rparr>
      else None)"

text \<open>A cell of a date column as \<open>save_data\<close> writes it: no content, or a day as text.\<close>

fun ymd_cell :: "cell \<Rightarrow> bool" where
  "ymd_cell CNone = True"
| "ymd_cell CNaN = True"
| "ymd_cell (CStr s) = (s = [] \<or> parse_ymd s \<noteq> None)"
| "ymd_cell c = False"

fun no_content :: "cell \<Rightarrow> bool" where
  "no_content CNone = True"
| "no_content CNaN = True"
| "no_content (CStr s) = (s = [])"
| "no_content c = False"

text \<open>
  \<open>pd.to_datetime(col, errors='coerce')\<close>, at the cell \<open>c\<close> of the column \<open>col\<close>. A cell
  without content gives NaT. Where every cell of the column is one that \<open>save_data\<close>
  writes, each text gives its day. What pandas reads out of any other column is left to
  \<open>date_of_cell\<close>; \<open>errors='coerce'\<close> gives NaT where it reads no date.
\<close>

definition to_datetime :: "pylib \<Rightarrow> cell list \<Rightarrow> cell \<Rightarrow> timestamp option" where
  "to_datetime P col c =
     (if no_content c then None
      else if list_all ymd_cell col
      then (case c of CStr s \<Rightarrow> parse_ymd s | _ \<Rightarrow> None)
      else date_of_cell P col c)"

text \<open>The column \<open>c\<close> of the table after line 40.\<close>

definition column_of :: "sheet \<Rightarrow> string \<Rightarrow> cell list" where
  "column_of sh c = map (\<lambda>row. column_cell sh row c) (body sh)"

text \<open>Lines 43 to 51 on one row of the sheet.\<close>

definition load_row :: "pylib \<Rightarrow> sheet \<Rightarrow> raw_row \<Rightarrow> trade" where
  "load_row P sh row =
     \<lparr>id_col = astype_int P (fillna0 (to_numeric P (column_cell sh row ''id''))),
      symbol = column_cell sh row ''symbol'',
      buy_price = fillna0 (to_numeric P (column_cell sh row ''buy_price'')),
      sell_price = fillna0 (to_numeric P (column_cell sh row ''sell_price'')),
      quantity = astype_int P (fillna0 (to_numeric P (column_cell sh row ''quantity''))),
      open_date = to_datetime P (column_of sh ''open_date'') (column_cell sh row ''open_date''),
      close_date = to_datetime P (column_of sh ''close_date'') (column_cell sh row ''close_date''),
      pnl = fillna0 (to_numeric P (column_cell sh row ''pnl'')),
      pnl_percent = column_cell sh row ''pnl_percent'',
      status = column_cell sh row ''status'',
      notes_col = column_cell sh row ''notes''\<rparr>"

text \<open>
  Lines 26 to 53 of \<open>get_data_cached\<close> on what \<open>conn.read\<close> returned: the DataFrame, and
  the sheet that line 29 writes, if it does. A sheet without rows, or with fewer than
  eleven columns of any name, is replaced by the empty canonical table (lines 26 to 30).
\<close>

definition read_and_normalize :: "pylib \<Rightarrow> sheet \<Rightarrow> frame \<times> sheet option" where
  "read_and_normalize P sh =
     (if sheet_empty sh \<or> length (header sh) < length COLUMNS
      then (\<lparr>columns = COLUMNS, rows = []\<rparr>, Some \<lparr>header = COLUMNS, body = []\<rparr>)
      else (\<lparr>columns = loaded_columns sh, rows = map (load_row P sh) (body sh)\<rparr>, None))"

subsection \<open>The writer\<close>

definition pad2 :: "nat \<Rightarrow> string" where
  "pad2 n = [digit_char (n div 10 mod 10), digit_char (n mod 10)]"

definition pad4 :: "nat \<Rightarrow> string" where
  "pad4 n = [digit_char (n div 1000 mod 10), digit_char (n div 100 mod 10),
             digit_char (n div 10 mod 10), digit_char (n mod 10)]"

text \<open>\<open>.dt.strftime('%Y-%m-%d')\<close> on a timestamp.\<close>

definition strftime_ymd :: "timestamp \<Rightarrow> string" where
  "strftime_ymd t = pad4 (year t) @ ''-'' @ pad2 (month t) @ ''-'' @ pad2 (day t)"

text \<open>Lines 67 to 75 on a date column: NaT is written as the empty string.\<close>

definition saved_date :: "timestamp option \<Rightarrow> cell" where
  "saved_date d = (case d of None \<Rightarrow> CStr [] | Some t \<Rightarrow> CStr (strftime_ymd t))"

text \<open>Line 75, \<open>fillna("")\<close>, on a cell.\<close>

fun fillna_str :: "cell \<Rightarrow> cell" where
  "fillna_str CNone = CStr []"
| "fillna_str CNaN = CStr []"
| "fillna_str c = c"

text \<open>The cell that \<open>save_data\<close> writes for column \<open>c\<close> of a row.\<close>

definition saved_cell :: "trade \<Rightarrow> string \<Rightarrow> cell" where
  "saved_cell r c =
     (if c = ''id'' then CInt (id_col r)
      else if c = ''symbol'' then fillna_str (symbol r)
      else if c = ''buy_price'' then CNum (buy_price r)
      else if c = ''sell_price'' then CNum (sell_price r)
      else if c = ''quantity'' then CInt (quantity r)
      else if c = ''open_date'' then saved_date (open_date r)
      else if c = ''close_date'' then saved_date (close_date r)
      else if c = ''pnl'' then CNum (pnl r)
      else if c = ''pnl_percent'' then fillna_str (pnl_percent r)
      else if c = ''status'' then fillna_str (status r)
      else if c = ''notes'' then fillna_str (notes_col r)
      else CStr [])"

definition saved_row :: "string list \<Rightarrow> trade \<Rightarrow> raw_row" where
  "saved_row cols r = map (\<lambda>c. (c, saved_cell r c)) cols"

definition sheet_of_frame :: "frame \<Rightarrow> sheet" where
  "sheet_of_frame df = \<lparr>header = columns df, body = map (saved_row (columns df)) (rows df)\<rparr>"

subsection \<open>The process: sheet and read cache\<close>

text \<open>
  \<open>st.cache_data(ttl=None)\<close> keeps the value that \<open>get_data_cached\<close> returned for the life
  of the process and hands out a copy of it on every later call; the body of the function
  runs only when nothing is cached. \<open>cache\<close> is that entry. The source never clears it.
\<close>

record world =
  store :: sheet
  cache :: "frame option"

definition get_data_cached :: "pylib \<Rightarrow> world \<Rightarrow> frame \<times> world" where
  "get_data_cached P w =
     (case cache w of
        Some df \<Rightarrow> (df, w)
      | None \<Rightarrow>
          (case read_and_normalize P (conn_read (store w)) of
             (df, written) \<Rightarrow>
               (df, \<lparr>store = (case written of None \<Rightarrow> store w | Some sh \<Rightarrow> sh),
                     cache = Some df\<rparr>)))"

definition get_data :: "pylib \<Rightarrow> world \<Rightarrow> frame \<times> world" where
  "get_data P w = get_data_cached P w"

definition save_data :: "frame \<Rightarrow> world \<Rightarrow> world" where
  "save_data df w = w\<lparr>store := sheet_of_frame df\<rparr>"

definition add_buy_position ::
  "pylib \<Rightarrow> string \<Rightarrow> rat \<Rightarrow> int \<Rightarrow> pydate \<Rightarrow> string \<Rightarrow> world \<Rightarrow> world" where
  "add_buy_position P symb bp qty od nts w =
     (case get_data P w of
        (df, w1) \<Rightarrow> save_data (add_buy_position_df symb bp qty od nts df) w1)"

definition close_position ::
  "pylib \<Rightarrow> int \<Rightarrow> rat \<Rightarrow> pydate \<Rightarrow> string \<Rightarrow> world \<Rightarrow> py_error + world" where
  "close_position P trade_id sp cd nts w =
     (case get_data P w of
        (df, w1) \<Rightarrow>
          (case close_position_df P trade_id sp cd nts df of
             Inl e \<Rightarrow> Inl e
           | Inr None \<Rightarrow> Inr w1
           | Inr (Some df') \<Rightarrow> Inr (save_data df' w1)))"

definition delete_trade :: "pylib \<Rightarrow> int \<Rightarrow> world \<Rightarrow> world" where
  "delete_trade P trade_id w =
     (case get_data P w of (df, w1) \<Rightarrow> save_data (delete_trade_df trade_id df) w1)"

definition get_open_positions :: "pylib \<Rightarrow> world \<Rightarrow> frame \<times> world" where
  "get_open_positions P w =
     (case get_data P w of (df, w1) \<Rightarrow> (get_open_positions_df df, w1))"

text \<open>\<open>get_closed_trades\<close>: \<open>out\<close> is a DataFrame it may return, \<open>w'\<close> the process after.\<close>

definition get_closed_trades :: "pylib \<Rightarrow> world \<Rightarrow> frame \<Rightarrow> world \<Rightarrow> bool" where
  "get_closed_trades P w out w' =
     (case get_data P w of (df, w1) \<Rightarrow> get_closed_trades_df df out \<and> w' = w1)"

text \<open>A new process: the sheet stays, the cache starts empty.\<close>

definition restart :: "world \<Rightarrow> world" where
  "restart w = w\<lparr>cache := None\<rparr>"

subsection \<open>Values for the examples\<close>

text \<open>
  A library for the examples below: it reads no number and no date out of free text, as
  pandas reads none out of the texts \<open>x\<close> and \<open>abc\<close> that occur there; no example prints a
  float, casts a number outside int64 or has an integer that float64 does not hold.
\<close>

definition no_text_lib :: pylib where
  "no_text_lib = \<lparr>num_of_str = (\<lambda>s. None), date_of_cell = (\<lambda>col c. None),
     repr_float = (\<lambda>r. []), big_int = (\<lambda>r. - (2 ^ 63)), wide_int = (\<lambda>i. of_int i)\<rparr>"

definition jan_2 :: pydate where
  "jan_2 = \<lparr>dyear = 2024, dmonth = 1, dday = 2\<rparr>"

definition mar_1 :: pydate where
  "mar_1 = \<lparr>dyear = 2024, dmonth = 3, dday = 1\<rparr>"

definition apr_9 :: pydate where
  "apr_9 = \<lparr>dyear = 2024, dmonth = 4, dday = 9\<rparr>"

text \<open>An open position: 10 shares bought at 100, with the note A.\<close>

definition open_row :: trade where
  "open_row = new_row 5 ''aapl'' 100 10 jan_2 ''A''"

text \<open>A finished trade: 10 shares bought at 100 and sold at 150 on 1 March.\<close>

definition closed_row :: trade where
  "closed_row =
     \<lparr>id_col = 1, symbol = CStr ''MSFT'', buy_price = 100, sell_price = 150, quantity = 10,
      open_date = Some (to_datetime_date jan_2), close_date = Some (to_datetime_date mar_1),
      pnl = 500, pnl_percent = CNum 50, status = CStr ''CLOSED'', notes_col = CStr ''A''\<rparr>"

text \<open>5 shares received at no cost.\<close>

definition free_row :: trade where
  "free_row = new_row 7 ''gift'' 0 5 jan_2 []"

text \<open>A position whose notes cell was empty in the sheet and was read as NaN.\<close>

definition blank_notes_row :: trade where
  "blank_notes_row = (new_row 3 ''tsla'' 20 4 jan_2 [])\<lparr>notes_col := CNaN\<rparr>"

definition table_of :: "trade list \<Rightarrow> frame" where
  "table_of rs = \<lparr>columns = COLUMNS, rows = rs\<rparr>"

text \<open>The sheet of a fresh spreadsheet that already has its header row.\<close>

definition blank_sheet :: sheet where
  "blank_sheet = \<lparr>header = COLUMNS, body = []\<rparr>"

text \<open>
  A sheet as \<open>conn.read\<close> delivers it when the notes cell of the only row is empty: the cell
  arrives as NaN.
\<close>

definition blank_notes_sheet :: sheet where
  "blank_notes_sheet = \<lparr>header = COLUMNS, body =
     [[(''id'', CInt 3), (''symbol'', CStr ''TSLA''), (''buy_price'', CNum 20),
       (''sell_price'', CNum 0), (''quantity'', CInt 4), (''open_date'', CStr ''2024-01-02''),
       (''close_date'', CNaN), (''pnl'', CNum 0), (''pnl_percent'', CNum 0),
       (''status'', CStr ''OPEN''), (''notes'', CNaN)]]\<rparr>"

text \<open>
  A sheet with one extra column and a row of cells that are missing or not of their
  column's type.
\<close>

definition dirty_sheet :: sheet where
  "dirty_sheet = \<lparr>header = COLUMNS @ [''Unnamed: 11''], body =
     [[(''id'', CStr ''x''), (''symbol'', CNaN), (''buy_price'', CStr ''abc''),
       (''sell_price'', CNaN), (''quantity'', CNone), (''open_date'', CNaN),
       (''close_date'', CStr []), (''pnl'', CNaN), (''pnl_percent'', CNum 0),
       (''status'', CNaN), (''notes'', CNaN), (''Unnamed: 11'', CNaN)]]\<rparr>"

text \<open>A row whose status cell is neither of the two words the queries look for.\<close>

definition limbo_row :: trade where
  "limbo_row = (new_row 9 ''ibm'' 50 1 jan_2 ''watch'')\<lparr>status := CStr ''Open''\<rparr>"

subsection \<open>Rows as the data model describes them\<close>

text \<open>
  The predicates of this subsection are not part of the program: they say which rows the
  round trip through the sheet is stated for.
\<close>

fun is_text :: "cell \<Rightarrow> bool" where
  "is_text (CStr s) = True"
| "is_text c = False"

fun is_number :: "cell \<Rightarrow> bool" where
  "is_number (CInt i) = True"
| "is_number (CNum r) = True"
| "is_number c = False"

definition valid_date :: "timestamp option \<Rightarrow> bool" where
  "valid_date d = (case d of None \<Rightarrow> True | Some t \<Rightarrow> valid_ymd (year t) (month t) (day t))"

text \<open>A cell that holds no value: None or NaN.\<close>

fun is_missing :: "cell \<Rightarrow> bool" where
  "is_missing CNone = True"
| "is_missing CNaN = True"
| "is_missing c = False"

text \<open>
  A canonical row: id and quantity are integers that float64 holds exactly (at most
  \<open>2 ^ 53\<close> in magnitude), symbol, status and notes are text,
  pnl_percent is a number, and a date that is present is a day of the calendar that a
  \<open>Timestamp\<close> can hold.
\<close>

definition canonical_row :: "trade \<Rightarrow> bool" where
  "canonical_row r =
     (float_int (id_col r) \<and> float_int (quantity r)
      \<and> is_text (symbol r) \<and> is_text (status r) \<and> is_text (notes_col r)
      \<and> is_number (pnl_percent r) \<and> valid_date (open_date r) \<and> valid_date (close_date r))"

definition canonical_frame :: "frame \<Rightarrow> bool" where
  "canonical_frame df =
     (set (columns df) = set COLUMNS \<and> distinct (columns df) \<and> list_all canonical_row (rows df))"

text \<open>The calendar date of a timestamp: the same day at midnight.\<close>

definition calendar_date :: "timestamp option \<Rightarrow> timestamp option" where
  "calendar_date d = map_option (\<lambda>t. t\<lparr>tod := 0\<rparr>) d"

definition by_calendar_date :: "trade \<Rightarrow> trade" where
  "by_calendar_date r =
     r\<lparr>open_date := calendar_date (open_date r), close_date := calendar_date (close_date r)\<rparr>"

text \<open>
  What a canonical row is read back as: its dates by calendar date, and a text field that
  is the empty string as NaN.
\<close>

definition reread_row :: "trade \<Rightarrow> trade" where
  "reread_row r =
     (by_calendar_date r)\<lparr>symbol := read_cell (symbol r), status := read_cell (status r),
        notes_col := read_cell (notes_col r)\<rparr>"

section \<open>Properties\<close>

subsection \<open>Finding the row\<close>

lemma first_index_Some:
  "first_index p xs = Some i \<Longrightarrow> i < length xs \<and> p (xs ! i) \<and> (\<forall>j<i. \<not> p (xs ! j))"
proof (induction xs arbitrary: i)
  case Nil
  then show ?case by simp
next
  case (Cons x xs)
  show ?case
  proof (cases "p x")
    case True
    with Cons.prems show ?thesis by simp
  next
    case False
    with Cons.prems obtain k where k: "first_index p xs = Some k" "i = Suc k"
      by auto
    from Cons.IH [OF k(1)] False k(2) show ?thesis
      by (auto simp: nth_Cons' less_Suc_eq_0_disj)
  qed
qed

lemma first_index_None: "first_index p xs = None \<longleftrightarrow> (\<forall>x\<in>set xs. \<not> p x)"
  by (induction xs) auto

lemma first_index_ex: "\<exists>x\<in>set xs. p x \<Longrightarrow> \<exists>i. first_index p xs = Some i"
  using first_index_None [of p xs] by (cases "first_index p xs") auto

subsection \<open>Closing a position\<close>

text \<open>
  The guard \<open>cost != 0\<close> keeps the division away from a zero divisor, so \<open>close_row\<close>
  always returns a row, and the row is this one.
\<close>

lemma close_row_Inr:
  "close_row P sp cd nts r =
     Inr (r\<lparr>sell_price := sp, close_date := Some (to_datetime_date cd),
            pnl := sp * of_int (quantity r) - buy_price r * of_int (quantity r),
            pnl_percent :=
              (if buy_price r * of_int (quantity r) \<noteq> 0
               then CNum ((sp * of_int (quantity r) - buy_price r * of_int (quantity r))
                          / (buy_price r * of_int (quantity r)) * 100)
               else CInt 0),
            status := CStr ''CLOSED'', notes_col := new_notes P (notes_col r) nts\<rparr>)"
  by (simp add: close_row_def py_div_def Let_def)

lemma close_position_df_never_raises:
  "close_position_df P trade_id sp cd nts df \<noteq> Inl e"
  by (simp add: close_position_df_def close_row_Inr split: option.splits)

lemma open_row_simps:
  "id_col open_row = 5" "buy_price open_row = 100" "quantity open_row = 10"
  "status open_row = CStr ''OPEN''" "notes_col open_row = CStr ''A''"
  by (simp_all add: open_row_def new_row_def)

lemma free_row_simps:
  "id_col free_row = 7" "buy_price free_row = 0" "quantity free_row = 5"
  by (simp_all add: free_row_def new_row_def)

text \<open>
  Claim C8. When the row found has cost basis 0 (buy price times quantity), closing it
  raises nothing: it returns the table to save, and the row's pnl_percent is 0.
\<close>

theorem close_zero_cost_no_error:
  assumes "first_index (\<lambda>r. id_col r = trade_id) (rows df) = Some idx"
    and "buy_price (rows df ! idx) * of_int (quantity (rows df ! idx)) = 0"
  shows "\<exists>df'. close_position_df P trade_id sp cd nts df = Inr (Some df')
      \<and> pnl_percent (rows df' ! idx) = CInt 0"
proof -
  from first_index_Some [OF assms(1)] have lt: "idx < length (rows df)" by simp
  show ?thesis
    using assms(2) by (simp add: close_position_df_def assms(1) close_row_Inr lt)
qed

theorem close_zero_cost_no_error_witness:
  "first_index (\<lambda>r. id_col r = 7) (rows (table_of [free_row])) = Some 0
   \<and> buy_price (rows (table_of [free_row]) ! 0)
       * of_int (quantity (rows (table_of [free_row]) ! 0)) = 0
   \<and> (\<exists>df'. close_position_df no_text_lib 7 30 mar_1 ''sold'' (table_of [free_row])
              = Inr (Some df')
        \<and> pnl_percent (rows df' ! 0) = CInt 0)"
proof -
  have a: "first_index (\<lambda>r. id_col r = 7) (rows (table_of [free_row])) = Some 0"
    by (simp add: table_of_def free_row_simps)
  have b: "buy_price (rows (table_of [free_row]) ! 0)
      * of_int (quantity (rows (table_of [free_row]) ! 0)) = 0"
    by (simp add: table_of_def free_row_simps)
  from close_zero_cost_no_error [OF a b, of no_text_lib 30 mar_1 "''sold''"] a b
  show ?thesis by simp
qed

subsection \<open>Notes, and closing a closed row\<close>

lemma new_notes_simps:
  "s \<noteq> [] \<Longrightarrow> new_notes P (CStr s) nts = CStr (s @ close_note_sep @ nts)"
  "new_notes P (CStr []) nts = CStr nts"
  "new_notes P CNone nts = CStr nts"
  "new_notes P CNaN nts = CStr (''nan'' @ close_note_sep @ nts)"
  by (simp_all add: new_notes_def)

lemma get_open_positions_df_status:
  "columns df \<noteq> [] \<Longrightarrow> r \<in> set (rows (get_open_positions_df df)) \<Longrightarrow> status r = CStr ''OPEN''"
  by (auto simp: get_open_positions_df_def df_empty_def split: if_splits)

lemma closed_row_simps:
  "id_col closed_row = 1" "buy_price closed_row = 100" "quantity closed_row = 10"
  "status closed_row = CStr ''CLOSED''" "notes_col closed_row = CStr ''A''"
  "sell_price closed_row = 150" "pnl closed_row = 500"
  by (simp_all add: closed_row_def)

subsection \<open>Ids\<close>

lemma next_id_eq:
  assumes "''id'' \<in> set (columns df)"
  shows "next_id df = Max (insert 0 (id_col ` set (rows df))) + 1"
proof (cases "rows df = []")
  case True
  then show ?thesis by (simp add: next_id_def df_empty_def)
next
  case False
  have fin: "finite (id_col ` set (rows df))" by simp
  have ne: "id_col ` set (rows df) \<noteq> {}" using False by simp
  have "Max (insert 0 (id_col ` set (rows df))) = max 0 (Max (id_col ` set (rows df)))"
    using Max_insert [OF fin ne] by simp
  moreover have "\<not> df_empty df" using False assms by (auto simp: df_empty_def)
  ultimately show ?thesis using assms by (simp add: next_id_def max_def)
qed

lemma next_id_greater:
  assumes "''id'' \<in> set (columns df)" and "r \<in> set (rows df)"
  shows "id_col r < next_id df"
proof -
  have "id_col r \<le> Max (insert 0 (id_col ` set (rows df)))"
    using assms(2) by (intro Max_ge) auto
  then show ?thesis by (simp add: next_id_eq [OF assms(1)])
qed

lemma get_closed_trades_df_rows:
  assumes "get_closed_trades_df df out" and "columns df \<noteq> []"
  shows "sort_values_close_date_desc (closed_rows df) (rows out)"
proof (cases "rows df = []")
  case True
  with assms have "out = df" by (simp add: get_closed_trades_df_def df_empty_def)
  with True show ?thesis by (simp add: sort_values_close_date_desc_def closed_rows_def)
next
  case False
  with assms show ?thesis by (simp add: get_closed_trades_df_def df_empty_def)
qed

lemma limbo_row_simps:
  "id_col limbo_row = 9" "status limbo_row = CStr ''Open''"
  by (simp_all add: limbo_row_def new_row_def)

subsection \<open>Dates as text\<close>

lemma of_char_digit_char: "n < 10 \<Longrightarrow> (of_char (digit_char n) :: nat) = 48 + n"
  by (simp add: digit_char_def)

lemma is_digit_digit_char: "n < 10 \<Longrightarrow> is_digit (digit_char n)"
  by (simp add: is_digit_def of_char_digit_char)

lemma digits_val_pad2: "n < 100 \<Longrightarrow> digits_val (pad2 n) = n"
  by (simp add: digits_val_def pad2_def of_char_digit_char)

lemma four_digits:
  fixes n :: nat
  assumes "n < 10000"
  shows "10 * (10 * (10 * (n div 1000 mod 10) + n div 100 mod 10) + n div 10 mod 10) + n mod 10 = n"
proof -
  define a where "a = n div 10"
  define b where "b = a div 10"
  define c where "c = b div 10"
  have b: "n div 100 = b"
    unfolding a_def b_def by (simp add: div_mult2_eq [symmetric])
  have c: "n div 1000 = c"
    unfolding a_def b_def c_def by (simp add: div_mult2_eq [symmetric])
  have "c < 10"
    using assms unfolding c [symmetric] by (simp add: less_mult_imp_div_less)
  then have c10: "c mod 10 = c" by simp
  define r0 where "r0 = n mod 10"
  define r1 where "r1 = a mod 10"
  define r2 where "r2 = b mod 10"
  have n: "n = 10 * a + r0" unfolding a_def r0_def by simp
  have a: "a = 10 * b + r1" unfolding b_def r1_def by simp
  have b': "b = 10 * c + r2" unfolding c_def r2_def by simp
  have "10 * (10 * (10 * c + r2) + r1) + r0 = n"
    using n a b' by simp
  then show ?thesis
    by (simp add: b c c10 a_def [symmetric] r0_def r1_def r2_def)
qed

lemma digits_val_pad4: "n < 10000 \<Longrightarrow> digits_val (pad4 n) = n"
proof -
  assume "n < 10000"
  have "digits_val (pad4 n) =
      10 * (10 * (10 * (n div 1000 mod 10) + n div 100 mod 10) + n div 10 mod 10) + n mod 10"
    by (simp add: digits_val_def pad4_def of_char_digit_char)
  also have "\<dots> = n" using \<open>n < 10000\<close> by (rule four_digits)
  finally show ?thesis .
qed

lemma all_digits_pad2: "list_all is_digit (pad2 n)"
  by (simp add: pad2_def is_digit_digit_char)

lemma all_digits_pad4: "list_all is_digit (pad4 n)"
  by (simp add: pad4_def is_digit_digit_char)

lemma length_pads: "length (pad4 n) = 4" "length (pad2 n) = 2"
  by (simp_all add: pad4_def pad2_def)

lemma valid_ymd_bounds: "valid_ymd y m d \<Longrightarrow> y < 10000 \<and> m < 100 \<and> d < 100"
  by (auto simp: valid_ymd_def days_in_month_def split: if_splits)

lemma strftime_ymd_shape:
  "length (strftime_ymd t) = 10" "strftime_ymd t ! 4 = CHR ''-''" "strftime_ymd t ! 7 = CHR ''-''"
  "take 4 (strftime_ymd t) = pad4 (year t)"
  "take 2 (drop 5 (strftime_ymd t)) = pad2 (month t)"
  "drop 8 (strftime_ymd t) = pad2 (day t)"
  by (simp_all add: strftime_ymd_def length_pads nth_append)

lemma parse_strftime:
  assumes "valid_ymd (year t) (month t) (day t)"
  shows "parse_ymd (strftime_ymd t) = Some (t\<lparr>tod := 0\<rparr>)"
proof -
  from valid_ymd_bounds [OF assms]
  have "digits_val (pad4 (year t)) = year t" "digits_val (pad2 (month t)) = month t"
    "digits_val (pad2 (day t)) = day t"
    by (simp_all add: digits_val_pad4 digits_val_pad2)
  with assms show ?thesis
    by (simp add: parse_ymd_def strftime_ymd_shape all_digits_pad2 all_digits_pad4)
qed

lemma strftime_ymd_nonempty: "strftime_ymd t \<noteq> []"
  using strftime_ymd_shape(1) [of t] by auto

subsection \<open>Writing a row and reading it\<close>

lemma cell_at_saved_row: "c \<in> set cols \<Longrightarrow> cell_at (saved_row cols r) c = saved_cell r c"
  by (induction cols) (auto simp: cell_at_def saved_row_def)

lemma cell_at_read:
  "cell_at (map (\<lambda>cv. (fst cv, read_cell (snd cv))) row) c = read_cell (cell_at row c)"
  by (induction row) (auto simp: cell_at_def)

lemma column_cell_conn_read:
  "column_cell (conn_read sh) (map (\<lambda>cv. (fst cv, read_cell (snd cv))) row) c =
     (if c \<in> set (header sh) then read_cell (cell_at row c) else CNone)"
  by (simp add: column_cell_def conn_read_def cell_at_read)

lemma COLUMNS_members:
  "''id'' \<in> set COLUMNS" "''symbol'' \<in> set COLUMNS" "''buy_price'' \<in> set COLUMNS"
  "''sell_price'' \<in> set COLUMNS" "''quantity'' \<in> set COLUMNS" "''open_date'' \<in> set COLUMNS"
  "''close_date'' \<in> set COLUMNS" "''pnl'' \<in> set COLUMNS" "''pnl_percent'' \<in> set COLUMNS"
  "''status'' \<in> set COLUMNS" "''notes'' \<in> set COLUMNS"
  by (simp_all add: COLUMNS_def)

text \<open>The cell of a canonical column that the loader sees of a row that was written.\<close>

lemma column_cell_saved:
  assumes "c \<in> set (columns df)"
  shows "column_cell (conn_read (sheet_of_frame df))
      (map (\<lambda>cv. (fst cv, read_cell (snd cv))) (saved_row (columns df) r)) c
    = read_cell (saved_cell r c)"
  using assms by (simp add: column_cell_conn_read sheet_of_frame_def cell_at_saved_row)

lemma body_conn_read_saved:
  "body (conn_read (sheet_of_frame df)) =
     map (\<lambda>r. map (\<lambda>cv. (fst cv, read_cell (snd cv))) (saved_row (columns df) r)) (rows df)"
  by (simp add: conn_read_def sheet_of_frame_def)

lemma header_conn_read_saved: "header (conn_read (sheet_of_frame df)) = columns df"
  by (simp add: conn_read_def sheet_of_frame_def)

lemma column_of_saved:
  assumes "c \<in> set (columns df)"
  shows "column_of (conn_read (sheet_of_frame df)) c = map (\<lambda>r. read_cell (saved_cell r c)) (rows df)"
  using assms by (simp add: column_of_def body_conn_read_saved column_cell_saved)

lemma read_saved_date:
  "read_cell (saved_date d) = (case d of None \<Rightarrow> CNaN | Some t \<Rightarrow> CStr (strftime_ymd t))"
  by (cases d) (simp_all add: saved_date_def strftime_ymd_nonempty)

lemma ymd_cell_saved_date: "valid_date d \<Longrightarrow> ymd_cell (read_cell (saved_date d))"
  by (cases d) (simp_all add: read_saved_date valid_date_def parse_strftime)

lemma to_datetime_saved_date:
  assumes "list_all ymd_cell col" and "valid_date d"
  shows "to_datetime P col (read_cell (saved_date d)) = calendar_date d"
  using assms
  by (cases d)
    (simp_all add: to_datetime_def read_saved_date calendar_date_def valid_date_def
      parse_strftime strftime_ymd_nonempty)

lemma trunc_int_of_int: "trunc_int (of_int i) = i"
  by (simp add: trunc_int_def)

lemma float_int_int64: "float_int i \<Longrightarrow> int64 i"
  by (simp add: float_int_def int64_def)

lemma astype_int_of_int: "int64 i \<Longrightarrow> astype_int P (of_int i) = i"
  by (simp add: astype_int_def trunc_int_of_int)

lemma read_fillna_text: "is_text c \<Longrightarrow> read_cell (fillna_str c) = read_cell c"
  by (cases c) simp_all

lemma read_fillna_number: "is_number c \<Longrightarrow> read_cell (fillna_str c) = c"
  by (cases c) simp_all

lemma load_saved_row:
  assumes cols: "set (columns df) = set COLUMNS"
    and rows: "\<And>x. x \<in> set (rows df) \<Longrightarrow> canonical_row x"
    and r: "canonical_row r"
  shows "load_row P (conn_read (sheet_of_frame df))
      (map (\<lambda>cv. (fst cv, read_cell (snd cv))) (saved_row (columns df) r)) = reread_row r"
proof -
  have cc: "column_cell (conn_read (sheet_of_frame df))
      (map (\<lambda>cv. (fst cv, read_cell (snd cv))) (saved_row (columns df) r)) c
      = read_cell (saved_cell r c)" if "c \<in> set COLUMNS" for c
    using that cols by (simp add: column_cell_saved)
  have od: "list_all ymd_cell (column_of (conn_read (sheet_of_frame df)) ''open_date'')"
    using rows cols
    by (simp add: column_of_saved COLUMNS_members saved_cell_def list_all_iff
        ymd_cell_saved_date canonical_row_def)
  have cd: "list_all ymd_cell (column_of (conn_read (sheet_of_frame df)) ''close_date'')"
    using rows cols
    by (simp add: column_of_saved COLUMNS_members saved_cell_def list_all_iff
        ymd_cell_saved_date canonical_row_def)
  from r have f: "float_int (id_col r)" "float_int (quantity r)" "is_text (symbol r)"
    "is_text (status r)" "is_text (notes_col r)" "is_number (pnl_percent r)"
    "valid_date (open_date r)" "valid_date (close_date r)"
    by (simp_all add: canonical_row_def)
  show ?thesis
    by (simp add: load_row_def cc COLUMNS_members saved_cell_def fillna0_def astype_int_of_int f
        f(1,2) [THEN float_int_int64]
        read_fillna_text read_fillna_number to_datetime_saved_date [OF od]
        to_datetime_saved_date [OF cd] reread_row_def by_calendar_date_def)
qed

subsection \<open>The columns of a loaded table\<close>

lemma distinct_COLUMNS: "distinct COLUMNS"
  by (simp add: COLUMNS_def)

lemma COLUMNS_nonempty: "COLUMNS \<noteq> []"
  by (simp add: COLUMNS_def)

lemma length_COLUMNS: "length COLUMNS = 11"
  by (simp add: COLUMNS_def)

lemma loaded_columns_set: "set (loaded_columns sh) = set COLUMNS"
  by (auto simp: loaded_columns_def existing_cols_def)

lemma loaded_columns_distinct: "distinct (loaded_columns sh)"
  using distinct_COLUMNS by (auto simp: loaded_columns_def existing_cols_def)

lemma loaded_columns_all: "set COLUMNS \<subseteq> set (header sh) \<Longrightarrow> loaded_columns sh = COLUMNS"
proof -
  assume a: "set COLUMNS \<subseteq> set (header sh)"
  then have "filter (\<lambda>c. c \<in> set (header sh)) COLUMNS = COLUMNS"
    by (intro filter_True) auto
  then show ?thesis by (simp add: loaded_columns_def existing_cols_def)
qed

lemma eleven_columns:
  assumes "set COLUMNS \<subseteq> set cols"
  shows "11 \<le> length cols"
proof -
  have "length COLUMNS = card (set COLUMNS)"
    using distinct_COLUMNS by (simp add: distinct_card)
  also have "\<dots> \<le> card (set cols)" using assms by (intro card_mono) auto
  also have "\<dots> \<le> length cols" by (rule card_length)
  finally show ?thesis by (simp add: length_COLUMNS)
qed

text \<open>What a process that has not read yet reads of a table that was written.\<close>

lemma read_written_rows:
  assumes "set COLUMNS \<subseteq> set (columns df)"
  shows "fst (read_and_normalize P (conn_read (sheet_of_frame df))) =
      \<lparr>columns = COLUMNS,
       rows = map (\<lambda>r. load_row P (conn_read (sheet_of_frame df))
                (map (\<lambda>cv. (fst cv, read_cell (snd cv))) (saved_row (columns df) r))) (rows df)\<rparr>"
proof (cases "rows df = []")
  case True
  then show ?thesis
    by (simp add: read_and_normalize_def sheet_empty_def body_conn_read_saved)
next
  case False
  have ne: "columns df \<noteq> []" using eleven_columns [OF assms] by auto
  have "loaded_columns (conn_read (sheet_of_frame df)) = COLUMNS"
    using assms by (intro loaded_columns_all) (simp add: header_conn_read_saved)
  then show ?thesis
    using False ne eleven_columns [OF assms]
    by (simp add: read_and_normalize_def sheet_empty_def length_COLUMNS body_conn_read_saved
        header_conn_read_saved o_def)
qed

lemma read_written_nothing_written:
  assumes "set COLUMNS \<subseteq> set (columns df)" and "rows df \<noteq> []"
  shows "snd (read_and_normalize P (conn_read (sheet_of_frame df))) = None"
  using assms eleven_columns [OF assms(1)]
  by (auto simp: read_and_normalize_def sheet_empty_def length_COLUMNS body_conn_read_saved
      header_conn_read_saved)

lemma read_saved_frame:
  assumes "canonical_frame df"
  shows "fst (read_and_normalize P (conn_read (sheet_of_frame df))) =
     \<lparr>columns = COLUMNS, rows = map reread_row (rows df)\<rparr>"
proof -
  from assms have cols: "set (columns df) = set COLUMNS"
    and can: "\<And>r. r \<in> set (rows df) \<Longrightarrow> canonical_row r"
    by (simp_all add: canonical_frame_def list_all_iff)
  have "map (\<lambda>r. load_row P (conn_read (sheet_of_frame df))
        (map (\<lambda>cv. (fst cv, read_cell (snd cv))) (saved_row (columns df) r))) (rows df)
      = map reread_row (rows df)"
    using can by (intro map_cong) (simp_all add: load_saved_row [OF cols can])
  then show ?thesis
    using read_written_rows [of df P] cols by simp
qed

text \<open>The ids come back as they were written, whatever the other cells are.\<close>

lemma ids_read_back:
  assumes "set COLUMNS \<subseteq> set (columns df)" and "\<And>r. r \<in> set (rows df) \<Longrightarrow> float_int (id_col r)"
  shows "map id_col (rows (fst (read_and_normalize P (conn_read (sheet_of_frame df)))))
    = map id_col (rows df)"
proof -
  have id: "''id'' \<in> set (columns df)" using assms(1) COLUMNS_members(1) by auto
  have "id_col (load_row P (conn_read (sheet_of_frame df))
        (map (\<lambda>cv. (fst cv, read_cell (snd cv))) (saved_row (columns df) r))) = id_col r"
    if "r \<in> set (rows df)" for r
    using assms(2) [OF that] float_int_int64 [OF assms(2) [OF that]]
    by (simp add: load_row_def column_cell_saved [OF id] saved_cell_def fillna0_def
        astype_int_of_int)
  then show ?thesis
    by (simp add: read_written_rows [OF assms(1)] o_def)
qed

subsection \<open>The operations and the table they read\<close>

lemma get_data_cold:
  "get_data P \<lparr>store = sh, cache = None\<rparr> =
     (fst (read_and_normalize P (conn_read sh)),
      \<lparr>store = (case snd (read_and_normalize P (conn_read sh)) of None \<Rightarrow> sh | Some s \<Rightarrow> s),
       cache = Some (fst (read_and_normalize P (conn_read sh)))\<rparr>)"
  by (simp add: get_data_def get_data_cached_def case_prod_beta split: option.splits)

lemma get_data_warm: "cache w = Some df \<Longrightarrow> get_data P w = (df, w)"
  by (simp add: get_data_def get_data_cached_def)

lemma get_data_fills_cache: "cache (snd (get_data P w)) = Some (fst (get_data P w))"
  by (cases "cache w") (simp_all add: get_data_def get_data_cached_def split: prod.splits)

lemma get_data_again: "fst (get_data P (snd (get_data P w))) = fst (get_data P w)"
  using get_data_warm [OF get_data_fills_cache] by simp

lemma save_data_keeps_cache: "cache (save_data df w) = cache w"
  by (simp add: save_data_def)

lemma store_save_data: "store (save_data df w) = sheet_of_frame df"
  by (simp add: save_data_def)

lemma get_data_restart:
  "fst (get_data P (restart w)) = fst (read_and_normalize P (conn_read (store w)))"
proof -
  have "restart w = \<lparr>store = store w, cache = None\<rparr>"
    by (simp add: restart_def)
  then show ?thesis by (simp add: get_data_cold)
qed

text \<open>Each mutating operation writes the table it computed from the table it read.\<close>

lemma add_buy_position_writes:
  "store (add_buy_position P symb bp qty od nts w) =
     sheet_of_frame (add_buy_position_df symb bp qty od nts (fst (get_data P w)))"
  "cache (add_buy_position P symb bp qty od nts w) = Some (fst (get_data P w))"
  by (simp_all add: add_buy_position_def case_prod_beta store_save_data save_data_keeps_cache
      get_data_fills_cache)

lemma delete_trade_writes:
  "store (delete_trade P trade_id w) = sheet_of_frame (delete_trade_df trade_id (fst (get_data P w)))"
  "cache (delete_trade P trade_id w) = Some (fst (get_data P w))"
  by (simp_all add: delete_trade_def case_prod_beta store_save_data save_data_keeps_cache
      get_data_fills_cache)

lemma close_position_writes:
  assumes "close_position_df P trade_id sp cd nts (fst (get_data P w)) = Inr (Some df')"
  shows "close_position P trade_id sp cd nts w = Inr (save_data df' (snd (get_data P w)))"
  using assms by (simp add: close_position_def case_prod_beta)

text \<open>No operation refreshes what \<open>get_data\<close> returns.\<close>

lemma get_data_after_save:
  "fst (get_data P (save_data df' (snd (get_data P w)))) = fst (get_data P w)"
  using get_data_warm [of "save_data df' (snd (get_data P w))" "fst (get_data P w)" P]
  by (simp add: save_data_keeps_cache get_data_fills_cache)

lemma get_data_after_add:
  "fst (get_data P (add_buy_position P symb bp qty od nts w)) = fst (get_data P w)"
  using get_data_warm [OF add_buy_position_writes(2)] by simp

lemma get_data_after_delete:
  "fst (get_data P (delete_trade P trade_id w)) = fst (get_data P w)"
  using get_data_warm [OF delete_trade_writes(2)] by simp

lemma get_data_after_close:
  "close_position P trade_id sp cd nts w = Inr w' \<Longrightarrow> fst (get_data P w') = fst (get_data P w)"
  by (auto simp: close_position_def split: prod.splits sum.splits option.splits)
    (metis fst_conv get_data_after_save get_data_again snd_conv)+

subsection \<open>What a close writes\<close>

lemma closed_df_found:
  assumes "first_index (\<lambda>r. id_col r = trade_id) (rows df) = Some idx"
  shows "close_position_df P trade_id sp cd nts df =
      Inr (Some (df\<lparr>rows := (rows df)[idx := (rows df ! idx)
        \<lparr>sell_price := sp, close_date := Some (to_datetime_date cd),
         pnl := sp * of_int (quantity (rows df ! idx))
                - buy_price (rows df ! idx) * of_int (quantity (rows df ! idx)),
         pnl_percent :=
           (if buy_price (rows df ! idx) * of_int (quantity (rows df ! idx)) \<noteq> 0
            then CNum ((sp * of_int (quantity (rows df ! idx))
                        - buy_price (rows df ! idx) * of_int (quantity (rows df ! idx)))
                       / (buy_price (rows df ! idx) * of_int (quantity (rows df ! idx))) * 100)
            else CInt 0),
         status := CStr ''CLOSED'',
         notes_col := new_notes P (notes_col (rows df ! idx)) nts\<rparr>]\<rparr>))"
  by (simp add: close_position_df_def assms close_row_Inr)

text \<open>
  Claim C4. \<open>close_position\<close> works on the table \<open>get_data\<close> gives it: the cached table,
  or the sheet as loaded in a process that has not read yet. Where that table holds a row
  with the id given, the operation finds the first such row and writes to the sheet the
  table in which, on that row: cost is buy price times quantity, pnl is sell price times
  quantity less cost, pnl_percent is pnl over cost times 100 when cost is not 0 and 0
  otherwise, status is CLOSED, sell price and close date are the ones given; id, buy price
  and quantity stay, and so does every other row. With buy price 100, quantity 10 and sell
  price 150 the row gets pnl 500 and pnl_percent 50.
\<close>

theorem close_position_computes:
  assumes "fst (get_data P w) = df" and "\<exists>r\<in>set (rows df). id_col r = trade_id"
  shows "\<exists>idx df' w'. first_index (\<lambda>r. id_col r = trade_id) (rows df) = Some idx
      \<and> close_position P trade_id sp cd nts w = Inr w'
      \<and> store w' = sheet_of_frame df' \<and> cache w' = Some df
      \<and> close_position_df P trade_id sp cd nts df = Inr (Some df')
      \<and> idx < length (rows df) \<and> id_col (rows df ! idx) = trade_id
      \<and> length (rows df') = length (rows df) \<and> columns df' = columns df
      \<and> (\<forall>j<length (rows df). j \<noteq> idx \<longrightarrow> rows df' ! j = rows df ! j)
      \<and> pnl (rows df' ! idx) =
           sp * of_int (quantity (rows df ! idx))
           - buy_price (rows df ! idx) * of_int (quantity (rows df ! idx))
      \<and> pnl_percent (rows df' ! idx) =
           (if buy_price (rows df ! idx) * of_int (quantity (rows df ! idx)) \<noteq> 0
            then CNum (pnl (rows df' ! idx)
                       / (buy_price (rows df ! idx) * of_int (quantity (rows df ! idx))) * 100)
            else CInt 0)
      \<and> status (rows df' ! idx) = CStr ''CLOSED''
      \<and> sell_price (rows df' ! idx) = sp
      \<and> close_date (rows df' ! idx) = Some (to_datetime_date cd)
      \<and> id_col (rows df' ! idx) = trade_id
      \<and> buy_price (rows df' ! idx) = buy_price (rows df ! idx)
      \<and> quantity (rows df' ! idx) = quantity (rows df ! idx)
      \<and> (buy_price (rows df ! idx) = 100 \<and> quantity (rows df ! idx) = 10 \<and> sp = 150
           \<longrightarrow> pnl (rows df' ! idx) = 500 \<and> pnl_percent (rows df' ! idx) = CNum 50)"
proof -
  from assms(2) obtain idx where idx: "first_index (\<lambda>r. id_col r = trade_id) (rows df) = Some idx"
    using first_index_ex [of "rows df" "\<lambda>r. id_col r = trade_id"] by blast
  from first_index_Some [OF idx] have lt: "idx < length (rows df)"
    and hit: "id_col (rows df ! idx) = trade_id" by auto
  note found = closed_df_found [OF idx, of P sp cd nts]
  have op: "close_position P trade_id sp cd nts w = Inr (save_data
      (df\<lparr>rows := (rows df)[idx := (rows df ! idx)
        \<lparr>sell_price := sp, close_date := Some (to_datetime_date cd),
         pnl := sp * of_int (quantity (rows df ! idx))
                - buy_price (rows df ! idx) * of_int (quantity (rows df ! idx)),
         pnl_percent :=
           (if buy_price (rows df ! idx) * of_int (quantity (rows df ! idx)) \<noteq> 0
            then CNum ((sp * of_int (quantity (rows df ! idx))
                        - buy_price (rows df ! idx) * of_int (quantity (rows df ! idx)))
                       / (buy_price (rows df ! idx) * of_int (quantity (rows df ! idx))) * 100)
            else CInt 0),
         status := CStr ''CLOSED'',
         notes_col := new_notes P (notes_col (rows df ! idx)) nts\<rparr>]\<rparr>)
      (snd (get_data P w)))"
    by (rule close_position_writes) (simp add: assms(1) found)
  have c: "cache (snd (get_data P w)) = Some df"
    using get_data_fills_cache [of P w] assms(1) by simp
  show ?thesis
    apply (rule exI [of _ idx])
    apply (simp add: idx op found store_save_data save_data_keeps_cache c lt hit)
    done
qed

subsection \<open>The example rows, written and read\<close>

lemma example_days_valid:
  "valid_date (Some (to_datetime_date jan_2))" "valid_date (Some (to_datetime_date mar_1))"
  "valid_date (Some (to_datetime_date apr_9))" "valid_date None"
  by (simp_all add: valid_date_def valid_ymd_def to_datetime_date_def jan_2_def mar_1_def
      apr_9_def days_in_month_def)

lemma example_days_midnight:
  "calendar_date (Some (to_datetime_date d)) = Some (to_datetime_date d)"
  "calendar_date None = None"
  by (simp_all add: calendar_date_def to_datetime_date_def)

lemma float_int_small:
  "float_int 1" "float_int 2" "float_int 3" "float_int 4" "float_int 5" "float_int 7"
  "float_int 9" "float_int 10"
  by (simp_all add: float_int_def)

lemma new_row_canonical:
  "float_int i \<Longrightarrow> float_int qty \<Longrightarrow> valid_date (Some (to_datetime_date od))
     \<Longrightarrow> canonical_row (new_row i symb bp qty od nts)"
  by (simp add: canonical_row_def new_row_def valid_date_def)

lemma reread_new_row:
  "reread_row (new_row i symb bp qty od nts) =
     (new_row i symb bp qty od nts)\<lparr>symbol := read_cell (CStr (upper symb)),
        notes_col := read_cell (CStr nts)\<rparr>"
  by (simp add: reread_row_def by_calendar_date_def new_row_def example_days_midnight)

lemma closed_row_canonical: "canonical_row closed_row"
  using example_days_valid by (simp add: canonical_row_def closed_row_def float_int_small)

lemma reread_closed_row: "reread_row closed_row = closed_row"
  by (simp add: reread_row_def by_calendar_date_def closed_row_def example_days_midnight)

lemma upper_aapl: "upper ''aapl'' = ''AAPL''" "upper ''msft'' = ''MSFT''"
  by code_simp+

lemma open_row_canonical: "canonical_row open_row"
  using example_days_valid by (simp add: open_row_def new_row_canonical float_int_small)

lemma reread_open_row: "reread_row open_row = open_row"
  by (simp add: open_row_def reread_new_row upper_aapl) (simp add: new_row_def upper_aapl)

text \<open>A row that was read back is written as the row it was read from.\<close>

lemma fillna_read_cell: "fillna_str (read_cell c) = fillna_str c"
  by (cases c) simp_all

lemma saved_date_calendar_date: "saved_date (calendar_date d) = saved_date d"
  by (cases d) (simp_all add: saved_date_def calendar_date_def strftime_ymd_def)

lemma saved_row_reread: "saved_row cols (reread_row r) = saved_row cols r"
  by (simp add: saved_row_def saved_cell_def reread_row_def by_calendar_date_def
      fillna_read_cell saved_date_calendar_date)

lemma read_saved_table:
  assumes "list_all canonical_row rs"
  shows "fst (read_and_normalize P (conn_read (sheet_of_frame (table_of rs))))
    = table_of (map reread_row rs)"
proof -
  have "canonical_frame (table_of rs)"
    using assms by (simp add: canonical_frame_def table_of_def distinct_COLUMNS)
  from read_saved_frame [OF this, of P] show ?thesis by (simp add: table_of_def)
qed

lemma get_data_saved_table:
  assumes "list_all canonical_row rs"
  shows "fst (get_data P \<lparr>store = sheet_of_frame (table_of rs), cache = None\<rparr>)
    = table_of (map reread_row rs)"
  by (simp add: get_data_cold read_saved_table [OF assms])

lemma get_data_example:
  "fst (get_data P \<lparr>store = sheet_of_frame (table_of [closed_row, open_row]), cache = None\<rparr>)
    = table_of [closed_row, open_row]"
proof -
  have "list_all canonical_row [closed_row, open_row]"
    by (simp add: closed_row_canonical open_row_canonical)
  from get_data_saved_table [OF this, of P] show ?thesis
    by (simp add: reread_closed_row reread_open_row)
qed

theorem close_position_computes_witness:
  "fst (get_data no_text_lib
      \<lparr>store = sheet_of_frame (table_of [closed_row, open_row]), cache = None\<rparr>)
     = table_of [closed_row, open_row]
   \<and> (\<exists>r\<in>set (rows (table_of [closed_row, open_row])). id_col r = 5)
   \<and> (\<exists>w'. close_position no_text_lib 5 150 mar_1 ''B''
          \<lparr>store = sheet_of_frame (table_of [closed_row, open_row]), cache = None\<rparr> = Inr w'
        \<and> body (store w') ! 0 = saved_row COLUMNS closed_row
        \<and> cell_at (body (store w') ! 1) ''pnl'' = CNum 500
        \<and> cell_at (body (store w') ! 1) ''pnl_percent'' = CNum 50
        \<and> cell_at (body (store w') ! 1) ''status'' = CStr ''CLOSED'')"
proof -
  let ?w = "\<lparr>store = sheet_of_frame (table_of [closed_row, open_row]), cache = None\<rparr>"
  have g: "fst (get_data no_text_lib ?w) = table_of [closed_row, open_row]"
    by (rule get_data_example)
  have h: "\<exists>r\<in>set (rows (table_of [closed_row, open_row])). id_col r = 5"
    by (simp add: table_of_def open_row_simps)
  have i: "first_index (\<lambda>r. id_col r = 5) (rows (table_of [closed_row, open_row])) = Some 1"
    by (simp add: table_of_def open_row_simps closed_row_simps)
  from close_position_computes [OF g h, of 150 mar_1 "''B''"] i
  obtain df' w' where r:
    "close_position no_text_lib 5 150 mar_1 ''B'' ?w = Inr w'"
    "store w' = sheet_of_frame df'"
    "length (rows df') = length (rows (table_of [closed_row, open_row]))"
    "columns df' = columns (table_of [closed_row, open_row])"
    "rows df' ! 0 = rows (table_of [closed_row, open_row]) ! 0"
    "pnl (rows df' ! 1) = 500" "pnl_percent (rows df' ! 1) = CNum 50"
    "status (rows df' ! 1) = CStr ''CLOSED''"
    by (auto simp: table_of_def open_row_simps)
  from r(3,4) have b: "body (store w') ! 0 = saved_row COLUMNS (rows df' ! 0)"
    "body (store w') ! Suc 0 = saved_row COLUMNS (rows df' ! Suc 0)"
    by (simp_all add: r(2) sheet_of_frame_def table_of_def)
  have "body (store w') ! 0 = saved_row COLUMNS closed_row"
    using b(1) r(5) by (simp add: table_of_def)
  moreover have "cell_at (body (store w') ! 1) ''pnl'' = CNum 500"
    "cell_at (body (store w') ! 1) ''pnl_percent'' = CNum 50"
    "cell_at (body (store w') ! 1) ''status'' = CStr ''CLOSED''"
    using r(6,7,8)
    by (simp_all add: b(2) cell_at_saved_row COLUMNS_members saved_cell_def)
  ultimately show ?thesis using g h r(1) by blast
qed

subsection \<open>Closing a row that is closed\<close>

text \<open>
  Claim C3, as amended. \<open>close_position\<close> does not read the status of the row it finds.
  On a row that is already CLOSED it is neither refused nor without effect: the table it
  writes has the row's sell price, close date, pnl and pnl_percent set from the new sell
  price and close date, and its notes rebuilt from the notes it has: where these are a
  non-empty string, the close-time text is appended to them once more.
\<close>

theorem close_position_reapplies_on_closed:
  assumes "fst (get_data P w) = df"
    and "first_index (\<lambda>r. id_col r = trade_id) (rows df) = Some idx"
    and "status (rows df ! idx) = CStr ''CLOSED''"
  shows "\<exists>df' w'. close_position P trade_id sp cd nts w = Inr w'
      \<and> store w' = sheet_of_frame df'
      \<and> close_position_df P trade_id sp cd nts df = Inr (Some df')
      \<and> sell_price (rows df' ! idx) = sp
      \<and> close_date (rows df' ! idx) = Some (to_datetime_date cd)
      \<and> pnl (rows df' ! idx) =
           sp * of_int (quantity (rows df ! idx))
           - buy_price (rows df ! idx) * of_int (quantity (rows df ! idx))
      \<and> pnl_percent (rows df' ! idx) =
           (if buy_price (rows df ! idx) * of_int (quantity (rows df ! idx)) \<noteq> 0
            then CNum (pnl (rows df' ! idx)
                       / (buy_price (rows df ! idx) * of_int (quantity (rows df ! idx))) * 100)
            else CInt 0)
      \<and> notes_col (rows df' ! idx) = new_notes P (notes_col (rows df ! idx)) nts
      \<and> (\<forall>s. notes_col (rows df ! idx) = CStr s \<and> s \<noteq> []
            \<longrightarrow> notes_col (rows df' ! idx) = CStr (s @ close_note_sep @ nts))
      \<and> status (rows df' ! idx) = CStr ''CLOSED''"
proof -
  from first_index_Some [OF assms(2)] have lt: "idx < length (rows df)" by simp
  note found = closed_df_found [OF assms(2), of P sp cd nts]
  have op: "close_position P trade_id sp cd nts w = Inr (save_data
      (df\<lparr>rows := (rows df)[idx := (rows df ! idx)
        \<lparr>sell_price := sp, close_date := Some (to_datetime_date cd),
         pnl := sp * of_int (quantity (rows df ! idx))
                - buy_price (rows df ! idx) * of_int (quantity (rows df ! idx)),
         pnl_percent :=
           (if buy_price (rows df ! idx) * of_int (quantity (rows df ! idx)) \<noteq> 0
            then CNum ((sp * of_int (quantity (rows df ! idx))
                        - buy_price (rows df ! idx) * of_int (quantity (rows df ! idx)))
                       / (buy_price (rows df ! idx) * of_int (quantity (rows df ! idx))) * 100)
            else CInt 0),
         status := CStr ''CLOSED'',
         notes_col := new_notes P (notes_col (rows df ! idx)) nts\<rparr>]\<rparr>)
      (snd (get_data P w)))"
    by (rule close_position_writes) (simp add: assms(1) found)
  show ?thesis
    by (simp add: op found store_save_data lt new_notes_simps)
qed

text \<open>
  Claim C3 as stated fails: the trade closed at 150 with pnl 500 is closed again at 200,
  and the table to save holds sell price 200, pnl 1000, pnl_percent 100, the later close
  date and a second close note; a process that reads this trade from the sheet writes
  that table.
\<close>

theorem close_twice_counterexample:
  "status (rows (table_of [closed_row]) ! 0) = CStr ''CLOSED''
   \<and> close_position_df no_text_lib 1 200 apr_9 ''C'' (table_of [closed_row]) =
       Inr (Some (table_of [closed_row\<lparr>sell_price := 200,
         close_date := Some (to_datetime_date apr_9), pnl := 1000, pnl_percent := CNum 100,
         notes_col := CStr (''A'' @ close_note_sep @ ''C'')\<rparr>]))
   \<and> sell_price closed_row = 150 \<and> pnl closed_row = 500
   \<and> close_position no_text_lib 1 200 apr_9 ''C''
        \<lparr>store = sheet_of_frame (table_of [closed_row]), cache = None\<rparr> =
       Inr \<lparr>store = sheet_of_frame (table_of [closed_row\<lparr>sell_price := 200,
              close_date := Some (to_datetime_date apr_9), pnl := 1000, pnl_percent := CNum 100,
              notes_col := CStr (''A'' @ close_note_sep @ ''C'')\<rparr>]),
            cache = Some (table_of [closed_row])\<rparr>"
proof -
  let ?w = "\<lparr>store = sheet_of_frame (table_of [closed_row]), cache = None\<rparr>"
  have d: "close_position_df no_text_lib 1 200 apr_9 ''C'' (table_of [closed_row]) =
       Inr (Some (table_of [closed_row\<lparr>sell_price := 200,
         close_date := Some (to_datetime_date apr_9), pnl := 1000, pnl_percent := CNum 100,
         notes_col := CStr (''A'' @ close_note_sep @ ''C'')\<rparr>]))"
    by (simp add: close_position_df_def close_row_Inr table_of_def closed_row_def new_notes_def)
  have "list_all canonical_row [closed_row]" by (simp add: closed_row_canonical)
  from get_data_saved_table [OF this, of no_text_lib]
  have g: "fst (get_data no_text_lib ?w) = table_of [closed_row]"
    by (simp add: reread_closed_row)
  have n: "snd (read_and_normalize no_text_lib (conn_read (sheet_of_frame (table_of [closed_row]))))
      = None"
    by (rule read_written_nothing_written) (simp_all add: table_of_def)
  have s: "snd (get_data no_text_lib ?w) = \<lparr>store = sheet_of_frame (table_of [closed_row]),
      cache = Some (table_of [closed_row])\<rparr>"
    using g by (simp add: get_data_cold n)
  have "close_position no_text_lib 1 200 apr_9 ''C'' ?w =
      Inr (save_data (table_of [closed_row\<lparr>sell_price := 200,
         close_date := Some (to_datetime_date apr_9), pnl := 1000, pnl_percent := CNum 100,
         notes_col := CStr (''A'' @ close_note_sep @ ''C'')\<rparr>]) (snd (get_data no_text_lib ?w)))"
    by (rule close_position_writes) (simp add: g d)
  with d show ?thesis
    by (simp add: s save_data_def) (simp add: table_of_def closed_row_simps)
qed

theorem close_position_reapplies_on_closed_witness:
  "fst (get_data no_text_lib \<lparr>store = sheet_of_frame (table_of [closed_row]), cache = None\<rparr>)
     = table_of [closed_row]
   \<and> first_index (\<lambda>r. id_col r = 1) (rows (table_of [closed_row])) = Some 0
   \<and> status (rows (table_of [closed_row]) ! 0) = CStr ''CLOSED''
   \<and> (\<exists>df' w'. close_position no_text_lib 1 200 apr_9 ''C''
          \<lparr>store = sheet_of_frame (table_of [closed_row]), cache = None\<rparr> = Inr w'
         \<and> store w' = sheet_of_frame df'
         \<and> sell_price (rows df' ! 0) = 200 \<and> pnl (rows df' ! 0) = 1000
         \<and> notes_col (rows df' ! 0) = CStr (''A'' @ close_note_sep @ ''C''))"
proof -
  let ?w = "\<lparr>store = sheet_of_frame (table_of [closed_row]), cache = None\<rparr>"
  have "list_all canonical_row [closed_row]" by (simp add: closed_row_canonical)
  from get_data_saved_table [OF this, of no_text_lib]
  have g: "fst (get_data no_text_lib ?w) = table_of [closed_row]"
    by (simp add: reread_closed_row)
  have a: "first_index (\<lambda>r. id_col r = 1) (rows (table_of [closed_row])) = Some 0"
    by (simp add: table_of_def closed_row_simps)
  have b: "status (rows (table_of [closed_row]) ! 0) = CStr ''CLOSED''"
    by (simp add: table_of_def closed_row_simps)
  from close_position_reapplies_on_closed [OF g a b, of 200 apr_9 "''C''"]
  obtain df' w' where
    "close_position no_text_lib 1 200 apr_9 ''C'' ?w = Inr w'" "store w' = sheet_of_frame df'"
    "sell_price (rows df' ! 0) = 200" "pnl (rows df' ! 0) = 1000"
    "notes_col (rows df' ! 0) = CStr (''A'' @ close_note_sep @ ''C'')"
    by (auto simp: table_of_def closed_row_simps)
  with g a b show ?thesis by blast
qed

subsection \<open>Ids from one process to the next\<close>

lemma delete_trade_df_ids:
  "map id_col (rows (delete_trade_df t df)) = filter (\<lambda>i. i \<noteq> t) (map id_col (rows df))"
  by (simp add: delete_trade_df_def filter_map o_def)

lemma add_buy_position_df_rows:
  assumes "''id'' \<in> set (columns df)"
  shows "rows (add_buy_position_df symb bp qty od nts df) =
      rows df @ [new_row (Max (insert 0 (id_col ` set (rows df))) + 1) symb bp qty od nts]"
  by (simp add: add_buy_position_df_def next_id_eq [OF assms])

text \<open>
  Claim C2, as amended. Let the table the process reads have the canonical columns and
  ids of magnitude at most \<open>2 ^ 53\<close>, which are read back from the sheet as they were
  written. \<open>add_buy_position\<close> writes the table it read with one row more,
  whose id is the greatest id of the table it read, or 0 if that is greater, plus 1: 1 on
  a table without rows, and greater than the id of every row of that table. Nothing
  records an id once its row is gone: a process that starts after \<open>delete_trade\<close> reads
  the ids that are left, and its next open assigns the greatest of them, or 0, plus 1. So
  the id deleted is assigned again exactly where it is that number.
\<close>

theorem open_assigns_next_id:
  assumes "fst (get_data P w) = df" and "set COLUMNS \<subseteq> set (columns df)"
    and "\<forall>r\<in>set (rows df). float_int (id_col r)"
  shows "store (add_buy_position P symb bp qty od nts w)
      = sheet_of_frame (add_buy_position_df symb bp qty od nts df)
    \<and> rows (add_buy_position_df symb bp qty od nts df) =
        rows df @ [new_row (Max (insert 0 (id_col ` set (rows df))) + 1) symb bp qty od nts]
    \<and> (rows df = [] \<longrightarrow> Max (insert 0 (id_col ` set (rows df))) + 1 = 1)
    \<and> (\<forall>r\<in>set (rows df). id_col r < Max (insert 0 (id_col ` set (rows df))) + 1)
    \<and> store (delete_trade P t w) = sheet_of_frame (delete_trade_df t df)
    \<and> map id_col (rows (fst (get_data P (restart (delete_trade P t w)))))
        = filter (\<lambda>i. i \<noteq> t) (map id_col (rows df))
    \<and> store (add_buy_position P symb bp qty od nts (restart (delete_trade P t w)))
        = sheet_of_frame (add_buy_position_df symb bp qty od nts
            (fst (get_data P (restart (delete_trade P t w)))))
    \<and> id_col (last (rows (add_buy_position_df symb bp qty od nts
          (fst (get_data P (restart (delete_trade P t w)))))))
        = Max (insert 0 (set (filter (\<lambda>i. i \<noteq> t) (map id_col (rows df))))) + 1
    \<and> (t = Max (insert 0 (set (filter (\<lambda>i. i \<noteq> t) (map id_col (rows df))))) + 1
         \<longrightarrow> id_col (last (rows (add_buy_position_df symb bp qty od nts
               (fst (get_data P (restart (delete_trade P t w))))))) = t)"
proof -
  have id: "''id'' \<in> set (columns df)" using assms(2) COLUMNS_members(1) by auto
  have a: "store (add_buy_position P symb bp qty od nts w)
      = sheet_of_frame (add_buy_position_df symb bp qty od nts df)"
    by (simp add: add_buy_position_writes assms(1))
  note b = add_buy_position_df_rows [OF id, of symb bp qty od nts]
  have c: "rows df = [] \<longrightarrow> Max (insert 0 (id_col ` set (rows df))) + 1 = 1" by simp
  have d: "\<forall>r\<in>set (rows df). id_col r < Max (insert 0 (id_col ` set (rows df))) + 1"
    using next_id_greater [OF id] by (simp add: next_id_eq [OF id])
  have e: "store (delete_trade P t w) = sheet_of_frame (delete_trade_df t df)"
    by (simp add: delete_trade_writes assms(1))
  let ?df2 = "fst (get_data P (restart (delete_trade P t w)))"
  have df2: "?df2 = fst (read_and_normalize P (conn_read (sheet_of_frame (delete_trade_df t df))))"
    by (simp add: get_data_restart e)
  have cols2: "set COLUMNS \<subseteq> set (columns (delete_trade_df t df))"
    using assms(2) by (simp add: delete_trade_df_def)
  have ids2: "\<And>r. r \<in> set (rows (delete_trade_df t df)) \<Longrightarrow> float_int (id_col r)"
    using assms(3) by (simp add: delete_trade_df_def)
  have f: "map id_col (rows ?df2) = filter (\<lambda>i. i \<noteq> t) (map id_col (rows df))"
    unfolding df2 by (simp add: ids_read_back [OF cols2 ids2] delete_trade_df_ids)
  have "columns ?df2 = COLUMNS"
    unfolding df2 by (simp add: read_written_rows [OF cols2])
  then have id2: "''id'' \<in> set (columns ?df2)" by (simp add: COLUMNS_members)
  have g: "store (add_buy_position P symb bp qty od nts (restart (delete_trade P t w)))
      = sheet_of_frame (add_buy_position_df symb bp qty od nts ?df2)"
    by (simp add: add_buy_position_writes)
  have "id_col ` set (rows ?df2) = set (map id_col (rows ?df2))" by simp
  also have "\<dots> = set (filter (\<lambda>i. i \<noteq> t) (map id_col (rows df)))" by (simp only: f)
  finally have s: "id_col ` set (rows ?df2) = set (filter (\<lambda>i. i \<noteq> t) (map id_col (rows df)))" .
  have h: "id_col (last (rows (add_buy_position_df symb bp qty od nts ?df2)))
      = Max (insert 0 (set (filter (\<lambda>i. i \<noteq> t) (map id_col (rows df))))) + 1"
    by (simp add: add_buy_position_df_rows [OF id2] s new_row_def)
  from a b c d e f g h show ?thesis by simp
qed

lemma restart_eq: "restart w = \<lparr>store = store w, cache = None\<rparr>"
  by (simp add: restart_def)

lemma id_col_reread: "id_col (reread_row r) = id_col r"
  by (simp add: reread_row_def by_calendar_date_def)

lemma next_id_reread: "next_id (table_of (map reread_row rs)) = next_id (table_of rs)"
  by (simp add: next_id_def table_of_def df_empty_def o_def id_col_reread)

lemma sheet_of_reread:
  "sheet_of_frame (table_of (map reread_row rs @ xs)) = sheet_of_frame (table_of (rs @ xs))"
  by (simp add: sheet_of_frame_def table_of_def saved_row_reread)

lemma add_df_table_of:
  "add_buy_position_df symb bp qty od nts (table_of rs)
     = table_of (rs @ [new_row (next_id (table_of rs)) symb bp qty od nts])"
  by (simp add: add_buy_position_df_def table_of_def)

text \<open>An open and a delete in a process that has not read yet, on a table that was written.\<close>

lemma add_in_new_process:
  assumes "list_all canonical_row rs"
  shows "store (add_buy_position P symb bp qty od nts
        \<lparr>store = sheet_of_frame (table_of rs), cache = None\<rparr>)
    = sheet_of_frame (table_of (rs @ [new_row (next_id (table_of rs)) symb bp qty od nts]))"
  by (simp add: add_buy_position_writes get_data_saved_table [OF assms] add_df_table_of
      next_id_reread sheet_of_reread)

lemma delete_in_new_process:
  assumes "list_all canonical_row rs"
  shows "store (delete_trade P t \<lparr>store = sheet_of_frame (table_of rs), cache = None\<rparr>)
    = sheet_of_frame (table_of (filter (\<lambda>r. id_col r \<noteq> t) rs))"
proof -
  have "filter (\<lambda>r. id_col r \<noteq> t) (map reread_row rs)
      = map reread_row (filter (\<lambda>r. id_col r \<noteq> t) rs)"
    by (simp add: filter_map o_def id_col_reread)
  then have "delete_trade_df t (table_of (map reread_row rs))
      = table_of (map reread_row (filter (\<lambda>r. id_col r \<noteq> t) rs))"
    by (simp add: delete_trade_df_def table_of_def)
  then show ?thesis
    using sheet_of_reread [of "filter (\<lambda>r. id_col r \<noteq> t) rs" "[]"]
    by (simp add: delete_trade_writes get_data_saved_table [OF assms])
qed

lemma read_blank_sheet:
  "read_and_normalize P (conn_read blank_sheet) = (\<lparr>columns = COLUMNS, rows = []\<rparr>, Some blank_sheet)"
  by (simp add: read_and_normalize_def blank_sheet_def sheet_empty_def conn_read_def)

lemma add_on_cold_blank:
  "add_buy_position P symb bp qty od nts \<lparr>store = blank_sheet, cache = None\<rparr> =
     \<lparr>store = sheet_of_frame (table_of [new_row 1 symb bp qty od nts]),
      cache = Some (table_of [])\<rparr>"
  by (simp add: add_buy_position_def get_data_cold read_blank_sheet save_data_def table_of_def
      add_buy_position_df_def next_id_def df_empty_def)

lemma add_on_stale_blank:
  "add_buy_position P symb bp qty od nts \<lparr>store = sh, cache = Some (table_of [])\<rparr> =
     \<lparr>store = sheet_of_frame (table_of [new_row 1 symb bp qty od nts]),
      cache = Some (table_of [])\<rparr>"
  by (simp add: add_buy_position_def get_data_warm save_data_def table_of_def
      add_buy_position_df_def next_id_def df_empty_def)

lemma id_col_new_row: "id_col (new_row i symb bp qty od nts) = i"
  by (simp add: new_row_def)

text \<open>
  Claim C2 as stated fails in its second half. Each operation runs in a process of its
  own, so each reads the sheet as the one before left it: A and B are opened and get ids 1
  and 2, the row with id 2 is deleted, and C, opened next, gets id 2 again.
\<close>

theorem id_reused_after_delete_counterexample:
  "store (add_buy_position no_text_lib ''b'' 20 1 jan_2 [] (restart
      (add_buy_position no_text_lib ''a'' 10 1 jan_2 [] \<lparr>store = blank_sheet, cache = None\<rparr>)))
    = sheet_of_frame (table_of [new_row 1 ''a'' 10 1 jan_2 [], new_row 2 ''b'' 20 1 jan_2 []])
   \<and> store (add_buy_position no_text_lib ''c'' 30 1 mar_1 [] (restart
        (delete_trade no_text_lib 2 (restart
          (add_buy_position no_text_lib ''b'' 20 1 jan_2 [] (restart
            (add_buy_position no_text_lib ''a'' 10 1 jan_2 []
              \<lparr>store = blank_sheet, cache = None\<rparr>)))))))
    = sheet_of_frame (table_of [new_row 1 ''a'' 10 1 jan_2 [], new_row 2 ''c'' 30 1 mar_1 []])"
proof -
  have c1: "list_all canonical_row [new_row 1 ''a'' 10 1 jan_2 []]"
    using example_days_valid by (simp add: new_row_canonical float_int_small)
  have c2: "list_all canonical_row [new_row 1 ''a'' 10 1 jan_2 [], new_row 2 ''b'' 20 1 jan_2 []]"
    using example_days_valid by (simp add: new_row_canonical float_int_small)
  have n1: "next_id (table_of [new_row 1 ''a'' 10 1 jan_2 []]) = 2"
    by (simp add: next_id_def table_of_def df_empty_def COLUMNS_def id_col_new_row)
  have s1: "store (add_buy_position no_text_lib ''a'' 10 1 jan_2 []
        \<lparr>store = blank_sheet, cache = None\<rparr>)
      = sheet_of_frame (table_of [new_row 1 ''a'' 10 1 jan_2 []])"
    by (simp add: add_on_cold_blank)
  have s2: "store (add_buy_position no_text_lib ''b'' 20 1 jan_2 [] (restart
        (add_buy_position no_text_lib ''a'' 10 1 jan_2 [] \<lparr>store = blank_sheet, cache = None\<rparr>)))
      = sheet_of_frame (table_of [new_row 1 ''a'' 10 1 jan_2 [], new_row 2 ''b'' 20 1 jan_2 []])"
    unfolding restart_eq s1 by (simp add: add_in_new_process [OF c1] n1)
  have s3: "store (delete_trade no_text_lib 2 (restart
        (add_buy_position no_text_lib ''b'' 20 1 jan_2 [] (restart
          (add_buy_position no_text_lib ''a'' 10 1 jan_2 []
            \<lparr>store = blank_sheet, cache = None\<rparr>)))))
      = sheet_of_frame (table_of [new_row 1 ''a'' 10 1 jan_2 []])"
    unfolding restart_eq [of "add_buy_position no_text_lib ''b'' 20 1 jan_2 [] _"] s2
    by (simp add: delete_in_new_process [OF c2] id_col_new_row)
  have s4: "store (add_buy_position no_text_lib ''c'' 30 1 mar_1 [] (restart
        (delete_trade no_text_lib 2 (restart
          (add_buy_position no_text_lib ''b'' 20 1 jan_2 [] (restart
            (add_buy_position no_text_lib ''a'' 10 1 jan_2 []
              \<lparr>store = blank_sheet, cache = None\<rparr>)))))))
      = sheet_of_frame (table_of [new_row 1 ''a'' 10 1 jan_2 [], new_row 2 ''c'' 30 1 mar_1 []])"
    unfolding restart_eq [of "delete_trade no_text_lib 2 _"] s3
    by (simp add: add_in_new_process [OF c1] n1)
  from s2 s4 show ?thesis by blast
qed

lemma row_2_canonical: "canonical_row (new_row 2 ''msft'' 30 2 mar_1 ''B'')"
  using example_days_valid by (simp add: new_row_canonical float_int_small)

lemma reread_row_2:
  "reread_row (new_row 2 ''msft'' 30 2 mar_1 ''B'') = new_row 2 ''msft'' 30 2 mar_1 ''B''"
  by (simp add: reread_new_row upper_aapl) (simp add: new_row_def upper_aapl)

theorem open_assigns_next_id_witness:
  "fst (get_data no_text_lib \<lparr>store = sheet_of_frame
        (table_of [closed_row, new_row 2 ''msft'' 30 2 mar_1 ''B'']), cache = None\<rparr>)
     = table_of [closed_row, new_row 2 ''msft'' 30 2 mar_1 ''B'']
   \<and> set COLUMNS \<subseteq> set (columns (table_of [closed_row, new_row 2 ''msft'' 30 2 mar_1 ''B'']))
   \<and> float_int (id_col closed_row) \<and> float_int (id_col (new_row 2 ''msft'' 30 2 mar_1 ''B''))
   \<and> rows (add_buy_position_df ''nvda'' 40 2 mar_1 ''n''
        (table_of [closed_row, new_row 2 ''msft'' 30 2 mar_1 ''B'']))
       = [closed_row, new_row 2 ''msft'' 30 2 mar_1 ''B'', new_row 3 ''nvda'' 40 2 mar_1 ''n'']
   \<and> map id_col (rows (fst (get_data no_text_lib (restart (delete_trade no_text_lib 2
        \<lparr>store = sheet_of_frame (table_of [closed_row, new_row 2 ''msft'' 30 2 mar_1 ''B'']),
         cache = None\<rparr>))))) = [1]
   \<and> id_col (last (rows (add_buy_position_df ''nvda'' 40 2 mar_1 ''n''
        (fst (get_data no_text_lib (restart (delete_trade no_text_lib 2
          \<lparr>store = sheet_of_frame (table_of [closed_row, new_row 2 ''msft'' 30 2 mar_1 ''B'']),
           cache = None\<rparr>))))))) = 2"
proof -
  let ?df = "table_of [closed_row, new_row 2 ''msft'' 30 2 mar_1 ''B'']"
  let ?w = "\<lparr>store = sheet_of_frame ?df, cache = None\<rparr>"
  have "list_all canonical_row [closed_row, new_row 2 ''msft'' 30 2 mar_1 ''B'']"
    by (simp add: closed_row_canonical row_2_canonical)
  from get_data_saved_table [OF this, of no_text_lib]
  have g: "fst (get_data no_text_lib ?w) = ?df"
    by (simp add: reread_closed_row reread_row_2)
  have c: "set COLUMNS \<subseteq> set (columns ?df)" by (simp add: table_of_def)
  have i: "float_int (id_col closed_row)" "float_int (id_col (new_row 2 ''msft'' 30 2 mar_1 ''B''))"
    by (simp_all add: closed_row_simps id_col_new_row float_int_small)
  then have i': "\<forall>r\<in>set (rows ?df). float_int (id_col r)" by (simp add: table_of_def)
  have m: "map id_col (rows ?df) = [1, 2]"
    by (simp add: table_of_def closed_row_simps id_col_new_row)
  have m': "id_col ` set (rows ?df) = {1, 2}"
    by (simp add: table_of_def closed_row_simps id_col_new_row)
  note t = open_assigns_next_id [OF g c i', of "''nvda''" 40 2 mar_1 "''n''" 2]
  from t have "rows (add_buy_position_df ''nvda'' 40 2 mar_1 ''n'' ?df) =
      rows ?df @ [new_row (Max (insert 0 (id_col ` set (rows ?df))) + 1) ''nvda'' 40 2 mar_1 ''n'']"
    by blast
  then have r1: "rows (add_buy_position_df ''nvda'' 40 2 mar_1 ''n'' ?df)
      = [closed_row, new_row 2 ''msft'' 30 2 mar_1 ''B'', new_row 3 ''nvda'' 40 2 mar_1 ''n'']"
    by (simp add: m') (simp add: table_of_def)
  from t have "map id_col (rows (fst (get_data no_text_lib (restart (delete_trade no_text_lib 2 ?w)))))
      = filter (\<lambda>i. i \<noteq> 2) (map id_col (rows ?df))"
    by blast
  then have r2: "map id_col (rows (fst (get_data no_text_lib
      (restart (delete_trade no_text_lib 2 ?w))))) = [1]"
    by (simp add: m)
  from t have "id_col (last (rows (add_buy_position_df ''nvda'' 40 2 mar_1 ''n''
        (fst (get_data no_text_lib (restart (delete_trade no_text_lib 2 ?w)))))))
      = Max (insert 0 (set (filter (\<lambda>i. i \<noteq> 2) (map id_col (rows ?df))))) + 1"
    by blast
  then have r3: "id_col (last (rows (add_buy_position_df ''nvda'' 40 2 mar_1 ''n''
        (fst (get_data no_text_lib (restart (delete_trade no_text_lib 2 ?w))))))) = 2"
    by (simp add: m)
  from g c i r1 r2 r3 show ?thesis by blast
qed

subsection \<open>Rows of another status\<close>

lemma get_open_positions_rows:
  "fst (get_open_positions P w) = get_open_positions_df (fst (get_data P w))"
  by (simp add: get_open_positions_def case_prod_beta)

lemma get_closed_trades_iff:
  "get_closed_trades P w out w' \<longleftrightarrow>
     get_closed_trades_df (fst (get_data P w)) out \<and> w' = snd (get_data P w)"
  by (simp add: get_closed_trades_def case_prod_beta)

lemma closed_rows_only:
  assumes "get_closed_trades_df df out" and "columns df \<noteq> []"
  shows "set (rows out) = {r \<in> set (rows df). status r = CStr ''CLOSED''}"
proof -
  from get_closed_trades_df_rows [OF assms]
  have "mset (rows out) = mset (filter (\<lambda>r. status r = CStr ''CLOSED'') (rows df))"
    by (simp add: sort_values_close_date_desc_def closed_rows_def)
  then have "set (rows out) = set (filter (\<lambda>r. status r = CStr ''CLOSED'') (rows df))"
    by (rule mset_eq_setD)
  then show ?thesis by simp
qed

lemma upper_ibm: "upper ''ibm'' = ''IBM''"
  by code_simp

lemma limbo_row_canonical: "canonical_row limbo_row"
  using example_days_valid
  by (simp add: limbo_row_def canonical_row_def new_row_def valid_date_def float_int_small)

lemma reread_limbo_row: "reread_row limbo_row = limbo_row"
  by (simp add: limbo_row_def reread_row_def by_calendar_date_def new_row_def
      example_days_midnight upper_ibm)

lemma get_data_limbo:
  "fst (get_data P \<lparr>store = sheet_of_frame (table_of [closed_row, limbo_row]), cache = None\<rparr>)
    = table_of [closed_row, limbo_row]"
proof -
  have "list_all canonical_row [closed_row, limbo_row]"
    by (simp add: closed_row_canonical limbo_row_canonical)
  from get_data_saved_table [OF this, of P] show ?thesis
    by (simp add: reread_closed_row reread_limbo_row)
qed

text \<open>
  Claim C10. Let \<open>df\<close> be the table the process reads and \<open>r\<close> a row of it whose status
  cell is neither the string OPEN nor the string CLOSED. Then \<open>r\<close> is in the result of
  neither \<open>get_open_positions\<close> nor \<open>get_closed_trades\<close>; \<open>add_buy_position\<close> writes the
  table with a new row whose id is the greatest id of all rows, \<open>r\<close> among them, or 0,
  plus 1, and so greater than the id of \<open>r\<close>; and \<open>delete_trade\<close> with the id of \<open>r\<close>
  writes the table without the rows of that id, so without \<open>r\<close>. The loader leaves the
  status cell as it was read.
\<close>

theorem other_status_row:
  assumes "fst (get_data P w) = df" and "r \<in> set (rows df)"
    and "status r \<noteq> CStr ''OPEN''" and "status r \<noteq> CStr ''CLOSED''"
    and "''id'' \<in> set (columns df)"
  shows "r \<notin> set (rows (fst (get_open_positions P w)))
    \<and> (\<forall>out w'. get_closed_trades P w out w' \<longrightarrow> r \<notin> set (rows out))
    \<and> store (add_buy_position P symb bp qty od nts w)
        = sheet_of_frame (add_buy_position_df symb bp qty od nts df)
    \<and> rows (add_buy_position_df symb bp qty od nts df) =
        rows df @ [new_row (Max (insert 0 (id_col ` set (rows df))) + 1) symb bp qty od nts]
    \<and> id_col r \<le> Max (insert 0 (id_col ` set (rows df)))
    \<and> store (delete_trade P (id_col r) w) = sheet_of_frame (delete_trade_df (id_col r) df)
    \<and> rows (delete_trade_df (id_col r) df) = filter (\<lambda>x. id_col x \<noteq> id_col r) (rows df)
    \<and> r \<notin> set (rows (delete_trade_df (id_col r) df))
    \<and> status (load_row P sh row) = column_cell sh row ''status''"
proof -
  have ne: "columns df \<noteq> []" using assms(5) by auto
  have a: "r \<notin> set (rows (fst (get_open_positions P w)))"
    using get_open_positions_df_status [OF ne] assms(3)
    by (auto simp: get_open_positions_rows assms(1))
  have b: "r \<notin> set (rows out)" if "get_closed_trades P w out w'" for out w'
  proof -
    from that have "get_closed_trades_df df out" by (simp add: get_closed_trades_iff assms(1))
    from closed_rows_only [OF this ne] assms(4) show ?thesis by simp
  qed
  have c: "store (add_buy_position P symb bp qty od nts w)
      = sheet_of_frame (add_buy_position_df symb bp qty od nts df)"
    by (simp add: add_buy_position_writes assms(1))
  note d = add_buy_position_df_rows [OF assms(5), of symb bp qty od nts]
  have e: "id_col r \<le> Max (insert 0 (id_col ` set (rows df)))"
    using assms(2) by (intro Max_ge) auto
  have f: "store (delete_trade P (id_col r) w) = sheet_of_frame (delete_trade_df (id_col r) df)"
    by (simp add: delete_trade_writes assms(1))
  have g: "rows (delete_trade_df (id_col r) df) = filter (\<lambda>x. id_col x \<noteq> id_col r) (rows df)"
    by (simp add: delete_trade_df_def)
  have h: "r \<notin> set (rows (delete_trade_df (id_col r) df))" by (simp add: g)
  have i: "status (load_row P sh row) = column_cell sh row ''status''"
    by (simp add: load_row_def)
  from a b c d e f g h i show ?thesis by blast
qed

theorem other_status_row_witness:
  "fst (get_data no_text_lib
      \<lparr>store = sheet_of_frame (table_of [closed_row, limbo_row]), cache = None\<rparr>)
     = table_of [closed_row, limbo_row]
   \<and> limbo_row \<in> set (rows (table_of [closed_row, limbo_row]))
   \<and> status limbo_row \<noteq> CStr ''OPEN'' \<and> status limbo_row \<noteq> CStr ''CLOSED''
   \<and> ''id'' \<in> set (columns (table_of [closed_row, limbo_row]))
   \<and> rows (fst (get_open_positions no_text_lib
        \<lparr>store = sheet_of_frame (table_of [closed_row, limbo_row]), cache = None\<rparr>)) = []
   \<and> get_closed_trades no_text_lib
        \<lparr>store = sheet_of_frame (table_of [closed_row, limbo_row]), cache = None\<rparr>
        (table_of [closed_row])
        \<lparr>store = sheet_of_frame (table_of [closed_row, limbo_row]),
         cache = Some (table_of [closed_row, limbo_row])\<rparr>
   \<and> \<not> get_closed_trades no_text_lib
        \<lparr>store = sheet_of_frame (table_of [closed_row, limbo_row]), cache = None\<rparr>
        (table_of [closed_row, limbo_row])
        \<lparr>store = sheet_of_frame (table_of [closed_row, limbo_row]),
         cache = Some (table_of [closed_row, limbo_row])\<rparr>
   \<and> store (add_buy_position no_text_lib ''msft'' 30 2 mar_1 ''B''
        \<lparr>store = sheet_of_frame (table_of [closed_row, limbo_row]), cache = None\<rparr>)
       = sheet_of_frame (table_of [closed_row, limbo_row, new_row 10 ''msft'' 30 2 mar_1 ''B''])
   \<and> store (delete_trade no_text_lib 9
        \<lparr>store = sheet_of_frame (table_of [closed_row, limbo_row]), cache = None\<rparr>)
       = sheet_of_frame (table_of [closed_row])"
proof -
  let ?df = "table_of [closed_row, limbo_row]"
  let ?w = "\<lparr>store = sheet_of_frame ?df, cache = None\<rparr>"
  note g = get_data_limbo [of no_text_lib]
  have a: "limbo_row \<in> set (rows ?df)" by (simp add: table_of_def)
  have b: "status limbo_row \<noteq> CStr ''OPEN''" and c: "status limbo_row \<noteq> CStr ''CLOSED''"
    by (simp_all add: limbo_row_simps)
  have d: "''id'' \<in> set (columns ?df)" by (simp add: table_of_def COLUMNS_def)
  have e: "rows ?df = [closed_row, limbo_row]" by (simp add: table_of_def)
  have m: "id_col ` set (rows ?df) = {1, 9}"
    by (simp add: table_of_def closed_row_simps limbo_row_simps)
  note t = other_status_row [OF g a b c d, of "''msft''" 30 2 mar_1 "''B''"]
  have w1: "snd (get_data no_text_lib ?w) = \<lparr>store = sheet_of_frame ?df, cache = Some ?df\<rparr>"
  proof -
    have "list_all canonical_row [closed_row, limbo_row]"
      by (simp add: closed_row_canonical limbo_row_canonical)
    then have "canonical_frame ?df"
      by (simp add: canonical_frame_def table_of_def distinct_COLUMNS)
    then have cols: "set COLUMNS \<subseteq> set (columns ?df)" by (simp add: canonical_frame_def)
    have "rows ?df \<noteq> []" by (simp add: e)
    from read_written_nothing_written [OF cols this, of no_text_lib]
    have "snd (read_and_normalize no_text_lib (conn_read (sheet_of_frame ?df))) = None" .
    moreover have "fst (read_and_normalize no_text_lib (conn_read (sheet_of_frame ?df))) = ?df"
      using g by (simp add: get_data_cold)
    ultimately show ?thesis
      by (simp add: get_data_def get_data_cached_def case_prod_beta)
  qed
  have r1: "rows (fst (get_open_positions no_text_lib ?w)) = []"
    unfolding get_open_positions_rows g
    by (simp add: get_open_positions_df_def df_empty_def table_of_def
        COLUMNS_def closed_row_simps limbo_row_simps)
  have r2: "get_closed_trades no_text_lib ?w (table_of [closed_row])
      \<lparr>store = sheet_of_frame ?df, cache = Some ?df\<rparr>"
    unfolding get_closed_trades_iff g w1
    by (simp add: get_closed_trades_df_def table_of_def df_empty_def COLUMNS_def
        sort_values_close_date_desc_def closed_rows_def closed_row_simps limbo_row_simps)
  from t a have r3: "\<not> get_closed_trades no_text_lib ?w ?df
      \<lparr>store = sheet_of_frame ?df, cache = Some ?df\<rparr>"
    by blast
  from t have "store (add_buy_position no_text_lib ''msft'' 30 2 mar_1 ''B'' ?w)
        = sheet_of_frame (add_buy_position_df ''msft'' 30 2 mar_1 ''B'' ?df)"
    and "rows (add_buy_position_df ''msft'' 30 2 mar_1 ''B'' ?df) =
        rows ?df @ [new_row (Max (insert 0 (id_col ` set (rows ?df))) + 1) ''msft'' 30 2 mar_1 ''B'']"
    by blast+
  then have r4: "store (add_buy_position no_text_lib ''msft'' 30 2 mar_1 ''B'' ?w)
      = sheet_of_frame (table_of [closed_row, limbo_row, new_row 10 ''msft'' 30 2 mar_1 ''B''])"
    by (simp add: m) (simp add: sheet_of_frame_def add_buy_position_df_def table_of_def)
  from t have "store (delete_trade no_text_lib (id_col limbo_row) ?w)
      = sheet_of_frame (delete_trade_df (id_col limbo_row) ?df)"
    by blast
  then have r5: "store (delete_trade no_text_lib 9 ?w) = sheet_of_frame (table_of [closed_row])"
    by (simp add: limbo_row_simps delete_trade_df_def table_of_def closed_row_simps)
  from g a b c d r1 r2 r3 r4 r5 show ?thesis by blast
qed

subsection \<open>Round trip through the sheet\<close>

lemma read_cell_cases: "read_cell c = (if c = CStr [] then CNaN else c)"
  by (cases c) simp_all

lemma strftime_mar_1: "strftime_ymd (to_datetime_date mar_1) = ''2024-03-01''"
  by code_simp

lemma parse_jan_2: "parse_ymd ''2024-01-02'' = Some (to_datetime_date jan_2)"
  by code_simp

lemma upper_tsla: "upper ''tsla'' = ''TSLA''"
  by code_simp

lemma strftime_jan_2: "strftime_ymd (to_datetime_date jan_2) = ''2024-01-02''"
  by code_simp

text \<open>
  Claim C9, as amended. A table of canonical rows is written with \<open>save_data\<close>: the sheet
  gets the table's header and one row of cells per row, a date as the text \<open>YYYY-MM-DD\<close>
  of \<open>strftime_ymd\<close> and a missing date as the empty string. A process that starts after
  the write and reads the sheet through \<open>get_data\<close> gets the rows in the same order, with
  the same id, prices, quantity, pnl and pnl_percent, each timestamp at the midnight of
  its calendar day, and the same symbol, status and notes where these are not the empty
  string; a text field that is the empty string is read back as NaN.
\<close>

theorem save_then_load_roundtrip:
  assumes "canonical_frame df"
  shows "fst (get_data P (restart (save_data df w))) =
      \<lparr>columns = COLUMNS, rows = map reread_row (rows df)\<rparr>
    \<and> (\<forall>r. id_col (reread_row r) = id_col r \<and> buy_price (reread_row r) = buy_price r
          \<and> sell_price (reread_row r) = sell_price r \<and> quantity (reread_row r) = quantity r
          \<and> pnl (reread_row r) = pnl r \<and> pnl_percent (reread_row r) = pnl_percent r
          \<and> open_date (reread_row r) = calendar_date (open_date r)
          \<and> close_date (reread_row r) = calendar_date (close_date r)
          \<and> symbol (reread_row r) = (if symbol r = CStr [] then CNaN else symbol r)
          \<and> status (reread_row r) = (if status r = CStr [] then CNaN else status r)
          \<and> notes_col (reread_row r) = (if notes_col r = CStr [] then CNaN else notes_col r))
    \<and> header (store (save_data df w)) = columns df
    \<and> length (body (store (save_data df w))) = length (rows df)
    \<and> (\<forall>i<length (rows df).
          cell_at (body (store (save_data df w)) ! i) ''open_date'' =
            (case open_date (rows df ! i) of None \<Rightarrow> CStr [] | Some t \<Rightarrow> CStr (strftime_ymd t))
          \<and> cell_at (body (store (save_data df w)) ! i) ''close_date'' =
            (case close_date (rows df ! i) of None \<Rightarrow> CStr [] | Some t \<Rightarrow> CStr (strftime_ymd t)))"
proof -
  from assms have cols: "set (columns df) = set COLUMNS" by (simp add: canonical_frame_def)
  have "cell_at (saved_row (columns df) r) ''open_date'' = saved_date (open_date r)"
    "cell_at (saved_row (columns df) r) ''close_date'' = saved_date (close_date r)" for r
    using cols by (simp_all add: cell_at_saved_row COLUMNS_members saved_cell_def)
  then have cells: "\<forall>i<length (rows df).
      cell_at (body (store (save_data df w)) ! i) ''open_date'' =
        (case open_date (rows df ! i) of None \<Rightarrow> CStr [] | Some t \<Rightarrow> CStr (strftime_ymd t))
      \<and> cell_at (body (store (save_data df w)) ! i) ''close_date'' =
        (case close_date (rows df ! i) of None \<Rightarrow> CStr [] | Some t \<Rightarrow> CStr (strftime_ymd t))"
    by (simp add: save_data_def sheet_of_frame_def saved_date_def)
  have reread: "fst (get_data P (restart (save_data df w))) =
      \<lparr>columns = COLUMNS, rows = map reread_row (rows df)\<rparr>"
    by (simp add: get_data_restart store_save_data read_saved_frame [OF assms])
  have fields: "\<forall>r. id_col (reread_row r) = id_col r \<and> buy_price (reread_row r) = buy_price r
          \<and> sell_price (reread_row r) = sell_price r \<and> quantity (reread_row r) = quantity r
          \<and> pnl (reread_row r) = pnl r \<and> pnl_percent (reread_row r) = pnl_percent r
          \<and> open_date (reread_row r) = calendar_date (open_date r)
          \<and> close_date (reread_row r) = calendar_date (close_date r)
          \<and> symbol (reread_row r) = (if symbol r = CStr [] then CNaN else symbol r)
          \<and> status (reread_row r) = (if status r = CStr [] then CNaN else status r)
          \<and> notes_col (reread_row r) = (if notes_col r = CStr [] then CNaN else notes_col r)"
    by (simp add: reread_row_def by_calendar_date_def read_cell_cases)
  have shape: "header (store (save_data df w)) = columns df"
    "length (body (store (save_data df w))) = length (rows df)"
    by (simp_all add: save_data_def sheet_of_frame_def)
  from reread fields shape cells show ?thesis by blast
qed

theorem save_then_load_roundtrip_witness:
  "canonical_frame (table_of [closed_row, open_row])
   \<and> fst (get_data no_text_lib (restart (save_data (table_of [closed_row, open_row])
        \<lparr>store = blank_sheet, cache = None\<rparr>))) = table_of [closed_row, open_row]
   \<and> cell_at (body (store (save_data (table_of [closed_row, open_row])
        \<lparr>store = blank_sheet, cache = None\<rparr>)) ! 0) ''close_date'' = CStr ''2024-03-01''"
proof -
  have c: "canonical_frame (table_of [closed_row, open_row])"
    by (simp add: canonical_frame_def table_of_def distinct_COLUMNS closed_row_canonical
        open_row_canonical)
  note t = save_then_load_roundtrip [OF c, of no_text_lib "\<lparr>store = blank_sheet, cache = None\<rparr>"]
  from t have "fst (get_data no_text_lib (restart (save_data (table_of [closed_row, open_row])
        \<lparr>store = blank_sheet, cache = None\<rparr>))) =
      \<lparr>columns = COLUMNS, rows = map reread_row (rows (table_of [closed_row, open_row]))\<rparr>"
    by blast
  then have a: "fst (get_data no_text_lib (restart (save_data (table_of [closed_row, open_row])
        \<lparr>store = blank_sheet, cache = None\<rparr>))) = table_of [closed_row, open_row]"
    by (simp add: table_of_def reread_closed_row reread_open_row)
  have "(0::nat) < length (rows (table_of [closed_row, open_row]))" by (simp add: table_of_def)
  with t have "cell_at (body (store (save_data (table_of [closed_row, open_row])
        \<lparr>store = blank_sheet, cache = None\<rparr>)) ! 0) ''close_date'' =
      (case close_date (rows (table_of [closed_row, open_row]) ! 0) of
         None \<Rightarrow> CStr [] | Some t \<Rightarrow> CStr (strftime_ymd t))"
    by blast
  then have b: "cell_at (body (store (save_data (table_of [closed_row, open_row])
        \<lparr>store = blank_sheet, cache = None\<rparr>)) ! 0) ''close_date'' = CStr ''2024-03-01''"
    by (simp add: table_of_def closed_row_def strftime_mar_1)
  from c a b show ?thesis by blast
qed

text \<open>
  Claim C9 as stated fails for a row with a text field that is the empty string, as the
  notes of a position opened without notes are. It is a canonical row; it is written with
  an empty notes cell, the sheet is read with that cell as NaN, and the loader leaves the
  notes column as it is read: the row comes back with the notes NaN, not the empty string.
\<close>

theorem empty_notes_read_back_nan_counterexample:
  "canonical_frame (table_of [new_row 3 ''tsla'' 20 4 jan_2 []])
   \<and> notes_col (new_row 3 ''tsla'' 20 4 jan_2 []) = CStr []
   \<and> conn_read (store (save_data (table_of [new_row 3 ''tsla'' 20 4 jan_2 []])
        \<lparr>store = blank_sheet, cache = None\<rparr>)) = blank_notes_sheet
   \<and> fst (get_data no_text_lib (restart (save_data (table_of [new_row 3 ''tsla'' 20 4 jan_2 []])
        \<lparr>store = blank_sheet, cache = None\<rparr>))) = table_of [blank_notes_row]
   \<and> notes_col blank_notes_row = CNaN"
proof -
  have c: "list_all canonical_row [new_row 3 ''tsla'' 20 4 jan_2 []]"
    using example_days_valid by (simp add: new_row_canonical float_int_small)
  then have a: "canonical_frame (table_of [new_row 3 ''tsla'' 20 4 jan_2 []])"
    by (simp add: canonical_frame_def table_of_def distinct_COLUMNS)
  have b: "notes_col (new_row 3 ''tsla'' 20 4 jan_2 []) = CStr []"
    by (simp add: new_row_def)
  have d: "conn_read (store (save_data (table_of [new_row 3 ''tsla'' 20 4 jan_2 []])
        \<lparr>store = blank_sheet, cache = None\<rparr>)) = blank_notes_sheet"
    by (simp add: store_save_data conn_read_def sheet_of_frame_def table_of_def saved_row_def
        COLUMNS_def saved_cell_def new_row_def saved_date_def blank_notes_sheet_def upper_tsla
        strftime_jan_2)
  have "reread_row (new_row 3 ''tsla'' 20 4 jan_2 []) = blank_notes_row"
    by (simp add: reread_new_row blank_notes_row_def) (simp add: new_row_def upper_tsla)
  with get_data_saved_table [OF c, of no_text_lib]
  have e: "fst (get_data no_text_lib (restart (save_data (table_of [new_row 3 ''tsla'' 20 4 jan_2 []])
        \<lparr>store = blank_sheet, cache = None\<rparr>))) = table_of [blank_notes_row]"
    by (simp add: restart_def save_data_def)
  have f: "notes_col blank_notes_row = CNaN"
    by (simp add: blank_notes_row_def)
  from a b d e f show ?thesis by blast
qed

subsection \<open>The read cache\<close>

text \<open>
  Claim C1 fails on the code: nothing clears the cache of \<open>get_data_cached\<close>. A process
  starts on the blank sheet, so the first read caches the table without rows. A position
  is opened: the sheet now holds its row, yet \<open>get_open_positions\<close> still returns no row;
  only a new process sees it. A second position opened in the same process is computed
  from the cached table without rows as well: it gets id 1 again, and the sheet written
  holds the second position alone.
\<close>

theorem stale_read_after_open:
  "rows (fst (get_open_positions no_text_lib
      (add_buy_position no_text_lib ''aapl'' 100 10 jan_2 ''A''
        \<lparr>store = blank_sheet, cache = None\<rparr>))) = []
   \<and> body (store (add_buy_position no_text_lib ''aapl'' 100 10 jan_2 ''A''
        \<lparr>store = blank_sheet, cache = None\<rparr>))
       = [saved_row COLUMNS (new_row 1 ''aapl'' 100 10 jan_2 ''A'')]
   \<and> rows (fst (get_open_positions no_text_lib (restart
      (add_buy_position no_text_lib ''aapl'' 100 10 jan_2 ''A''
        \<lparr>store = blank_sheet, cache = None\<rparr>)))) = [new_row 1 ''aapl'' 100 10 jan_2 ''A'']
   \<and> body (store (add_buy_position no_text_lib ''msft'' 30 2 mar_1 []
      (add_buy_position no_text_lib ''aapl'' 100 10 jan_2 ''A''
        \<lparr>store = blank_sheet, cache = None\<rparr>)))
       = [saved_row COLUMNS (new_row 1 ''msft'' 30 2 mar_1 [])]"
proof -
  have can: "list_all canonical_row [new_row 1 ''aapl'' 100 10 jan_2 ''A'']"
    using example_days_valid by (simp add: new_row_canonical float_int_small)
  have rr: "reread_row (new_row 1 ''aapl'' 100 10 jan_2 ''A'') = new_row 1 ''aapl'' 100 10 jan_2 ''A''"
    by (simp add: reread_new_row upper_aapl) (simp add: new_row_def upper_aapl)
  have reread: "fst (get_data no_text_lib
      \<lparr>store = sheet_of_frame (table_of [new_row 1 ''aapl'' 100 10 jan_2 ''A'']), cache = None\<rparr>)
      = table_of [new_row 1 ''aapl'' 100 10 jan_2 ''A'']"
    using get_data_saved_table [OF can, of no_text_lib] by (simp add: rr)
  have w1: "add_buy_position no_text_lib ''aapl'' 100 10 jan_2 ''A''
      \<lparr>store = blank_sheet, cache = None\<rparr> =
      \<lparr>store = sheet_of_frame (table_of [new_row 1 ''aapl'' 100 10 jan_2 ''A'']),
       cache = Some (table_of [])\<rparr>"
    by (rule add_on_cold_blank)
  have c1: "rows (fst (get_open_positions no_text_lib
      (add_buy_position no_text_lib ''aapl'' 100 10 jan_2 ''A''
        \<lparr>store = blank_sheet, cache = None\<rparr>))) = []"
    unfolding w1
    by (simp add: get_open_positions_def get_data_warm get_open_positions_df_def df_empty_def
        table_of_def)
  have c2: "body (store (add_buy_position no_text_lib ''aapl'' 100 10 jan_2 ''A''
        \<lparr>store = blank_sheet, cache = None\<rparr>))
       = [saved_row COLUMNS (new_row 1 ''aapl'' 100 10 jan_2 ''A'')]"
    unfolding w1 by (simp add: sheet_of_frame_def table_of_def)
  have c3: "rows (fst (get_open_positions no_text_lib (restart
      (add_buy_position no_text_lib ''aapl'' 100 10 jan_2 ''A''
        \<lparr>store = blank_sheet, cache = None\<rparr>)))) = [new_row 1 ''aapl'' 100 10 jan_2 ''A'']"
    unfolding w1 restart_eq get_open_positions_rows
    by (simp add: reread)
      (simp add: get_open_positions_df_def df_empty_def table_of_def COLUMNS_def new_row_def)
  have c4: "body (store (add_buy_position no_text_lib ''msft'' 30 2 mar_1 []
      (add_buy_position no_text_lib ''aapl'' 100 10 jan_2 ''A''
        \<lparr>store = blank_sheet, cache = None\<rparr>)))
       = [saved_row COLUMNS (new_row 1 ''msft'' 30 2 mar_1 [])]"
    unfolding w1 add_on_stale_blank by (simp add: sheet_of_frame_def table_of_def)
  from c1 c2 c3 c4 show ?thesis by blast
qed

subsection \<open>Notes read from an empty cell\<close>

lemma conn_read_blank_notes_sheet: "conn_read blank_notes_sheet = blank_notes_sheet"
  by (simp add: conn_read_def blank_notes_sheet_def)

lemma read_blank_notes_sheet:
  "read_and_normalize no_text_lib blank_notes_sheet = (table_of [blank_notes_row], None)"
proof -
  have "loaded_columns blank_notes_sheet = COLUMNS"
    by (rule loaded_columns_all) (simp add: blank_notes_sheet_def)
  moreover have "map (load_row no_text_lib blank_notes_sheet) (body blank_notes_sheet)
      = [blank_notes_row]"
    by (simp add: blank_notes_sheet_def load_row_def column_cell_def COLUMNS_members cell_at_def
        fillna0_def astype_int_def trunc_int_def int64_def float_int_def to_datetime_def
        column_of_def
        parse_jan_2 blank_notes_row_def new_row_def upper_tsla)
  moreover have "\<not> sheet_empty blank_notes_sheet" "length (header blank_notes_sheet) = 11"
    by (simp_all add: blank_notes_sheet_def sheet_empty_def COLUMNS_nonempty length_COLUMNS)
  ultimately show ?thesis
    by (simp add: read_and_normalize_def length_COLUMNS table_of_def)
qed

text \<open>
  Claim C7 fails on the code for a row whose notes cell is NaN, the value pandas gives to
  a cell without content; the loader passes it on as it is. NaN is a float other than
  zero, so \<open>if old_notes\<close> takes it for notes that are present, and closing with the
  text B stores the notes \<open>nan | ...: B\<close> instead of B. (Where the old notes are a
  non-empty string they stay as the prefix, and where they are the empty string or None
  the result is the close-time text: \<open>new_notes_simps\<close>.)
\<close>

theorem close_blank_notes_writes_nan:
  "fst (read_and_normalize no_text_lib blank_notes_sheet) = table_of [blank_notes_row]
   \<and> notes_col blank_notes_row = CNaN
   \<and> (\<exists>df'. close_position_df no_text_lib 3 25 mar_1 ''B'' (table_of [blank_notes_row])
              = Inr (Some df')
          \<and> map notes_col (rows df') = [CStr (''nan'' @ close_note_sep @ ''B'')])
   \<and> (\<exists>w'. close_position no_text_lib 3 25 mar_1 ''B''
              \<lparr>store = blank_notes_sheet, cache = None\<rparr> = Inr w'
          \<and> cell_at (body (store w') ! 0) ''notes'' = CStr (''nan'' @ close_note_sep @ ''B''))"
proof -
  have n: "notes_col blank_notes_row = CNaN" "id_col blank_notes_row = 3"
    by (simp_all add: blank_notes_row_def new_row_def)
  have d: "close_position_df no_text_lib 3 25 mar_1 ''B'' (table_of [blank_notes_row]) =
      Inr (Some (table_of [blank_notes_row\<lparr>sell_price := 25,
        close_date := Some (to_datetime_date mar_1), pnl := 20, pnl_percent := CNum 25,
        status := CStr ''CLOSED'', notes_col := CStr (''nan'' @ close_note_sep @ ''B'')\<rparr>]))"
    by (simp add: close_position_df_def table_of_def n close_row_Inr new_notes_simps)
      (simp add: blank_notes_row_def new_row_def)
  have w: "close_position no_text_lib 3 25 mar_1 ''B'' \<lparr>store = blank_notes_sheet, cache = None\<rparr>
      = Inr (save_data (table_of [blank_notes_row\<lparr>sell_price := 25,
        close_date := Some (to_datetime_date mar_1), pnl := 20, pnl_percent := CNum 25,
        status := CStr ''CLOSED'', notes_col := CStr (''nan'' @ close_note_sep @ ''B'')\<rparr>])
        \<lparr>store = blank_notes_sheet, cache = Some (table_of [blank_notes_row])\<rparr>)"
    by (simp add: close_position_def get_data_cold conn_read_blank_notes_sheet
        read_blank_notes_sheet d)
  have c: "cell_at (body (store (save_data (table_of [blank_notes_row\<lparr>sell_price := 25,
        close_date := Some (to_datetime_date mar_1), pnl := 20, pnl_percent := CNum 25,
        status := CStr ''CLOSED'', notes_col := CStr (''nan'' @ close_note_sep @ ''B'')\<rparr>])
        \<lparr>store = blank_notes_sheet, cache = Some (table_of [blank_notes_row])\<rparr>)) ! 0) ''notes''
      = CStr (''nan'' @ close_note_sep @ ''B'')"
    by (simp add: save_data_def sheet_of_frame_def table_of_def cell_at_saved_row
        COLUMNS_members saved_cell_def)
  from n d w c show ?thesis
    by (simp add: read_blank_notes_sheet table_of_def)
qed

subsection \<open>What the loader coerces\<close>

lemma missing_coerced:
  "is_missing c \<Longrightarrow> fillna0 (to_numeric P c) = 0 \<and> astype_int P (fillna0 (to_numeric P c)) = 0"
  by (cases c) (simp_all add: fillna0_def astype_int_def trunc_int_def int64_def)

lemma to_datetime_written:
  assumes "list_all ymd_cell col" and "valid_ymd (year t) (month t) (day t)"
  shows "to_datetime P col (CStr (strftime_ymd t)) = Some (t\<lparr>tod := 0\<rparr>)"
  using assms by (simp add: to_datetime_def strftime_ymd_nonempty parse_strftime)

text \<open>
  Claim C5, as amended. Whatever \<open>conn.read\<close> returned, the loaded table has exactly the
  canonical columns, each once. A sheet without rows, or with fewer than eleven columns
  of any name, gives the table without rows, and the blank sheet is written. Otherwise
  nothing is written and every row is loaded cell by cell, a column the sheet lacks
  counting as None. Id and quantity go through \<open>to_numeric\<close>, \<open>fillna(0)\<close> and
  \<open>astype(int)\<close>, buy price, sell price and pnl through \<open>to_numeric\<close> and \<open>fillna(0.0)\<close>:
  a cell that is missing, or a text pandas reads no number from, gives 0; an integer of
  magnitude up to \<open>2 ^ 53\<close> gives itself; a float gives itself as a price and, as id or
  quantity, its integer part where that is an int64. The two dates go through
  \<open>to_datetime\<close>: a cell without content gives NaT; in a column all of whose cells are
  without content or a valid day as \<open>YYYY-MM-DD\<close>, such a text gives that day at midnight;
  in any other column a cell gives NaT where pandas reads no date from it. Symbol, status
  and notes are not coerced: they stay the cells they were, None or NaN included, and are
  not replaced by the empty string. Nothing is stated here about pnl_percent.
\<close>

theorem read_and_normalize_coerces:
  "set (columns (fst (read_and_normalize P sh))) = set COLUMNS
   \<and> distinct (columns (fst (read_and_normalize P sh)))
   \<and> (sheet_empty sh \<or> length (header sh) < 11 \<longrightarrow>
        read_and_normalize P sh = (\<lparr>columns = COLUMNS, rows = []\<rparr>, Some blank_sheet))
   \<and> (\<not> sheet_empty sh \<and> 11 \<le> length (header sh) \<longrightarrow>
        snd (read_and_normalize P sh) = None
        \<and> length (rows (fst (read_and_normalize P sh))) = length (body sh)
        \<and> (\<forall>i<length (body sh).
              rows (fst (read_and_normalize P sh)) ! i = load_row P sh (body sh ! i)))
   \<and> (\<forall>row c. c \<notin> set (header sh) \<longrightarrow> column_cell sh row c = CNone)
   \<and> (\<forall>row.
        id_col (load_row P sh row)
            = astype_int P (fillna0 (to_numeric P (column_cell sh row ''id'')))
        \<and> quantity (load_row P sh row)
            = astype_int P (fillna0 (to_numeric P (column_cell sh row ''quantity'')))
        \<and> buy_price (load_row P sh row) = fillna0 (to_numeric P (column_cell sh row ''buy_price''))
        \<and> sell_price (load_row P sh row) = fillna0 (to_numeric P (column_cell sh row ''sell_price''))
        \<and> pnl (load_row P sh row) = fillna0 (to_numeric P (column_cell sh row ''pnl''))
        \<and> open_date (load_row P sh row)
            = to_datetime P (column_of sh ''open_date'') (column_cell sh row ''open_date'')
        \<and> close_date (load_row P sh row)
            = to_datetime P (column_of sh ''close_date'') (column_cell sh row ''close_date'')
        \<and> symbol (load_row P sh row) = column_cell sh row ''symbol''
        \<and> status (load_row P sh row) = column_cell sh row ''status''
        \<and> notes_col (load_row P sh row) = column_cell sh row ''notes'')
   \<and> (\<forall>c. is_missing c \<longrightarrow>
        astype_int P (fillna0 (to_numeric P c)) = 0 \<and> fillna0 (to_numeric P c) = 0)
   \<and> (\<forall>s. num_of_str P s = None \<longrightarrow>
        astype_int P (fillna0 (to_numeric P (CStr s))) = 0 \<and> fillna0 (to_numeric P (CStr s)) = 0)
   \<and> (\<forall>i. float_int i \<longrightarrow>
        astype_int P (fillna0 (to_numeric P (CInt i))) = i
        \<and> fillna0 (to_numeric P (CInt i)) = of_int i)
   \<and> (\<forall>x. fillna0 (to_numeric P (CNum x)) = x
        \<and> (int64 (trunc_int x) \<longrightarrow>
              astype_int P (fillna0 (to_numeric P (CNum x))) = (if 0 \<le> x then \<lfloor>x\<rfloor> else \<lceil>x\<rceil>)))
   \<and> (\<forall>col c. no_content c \<longrightarrow> to_datetime P col c = None)
   \<and> (\<forall>col c. \<not> list_all ymd_cell col \<and> date_of_cell P col c = None \<longrightarrow>
        to_datetime P col c = None)
   \<and> (\<forall>col t. list_all ymd_cell col \<and> CStr (strftime_ymd t) \<in> set col
          \<and> valid_ymd (year t) (month t) (day t) \<longrightarrow>
        to_datetime P col (CStr (strftime_ymd t)) = Some (t\<lparr>tod := 0\<rparr>))"
proof -
  have cols: "set (columns (fst (read_and_normalize P sh))) = set COLUMNS"
    "distinct (columns (fst (read_and_normalize P sh)))"
    by (simp_all add: read_and_normalize_def loaded_columns_set loaded_columns_distinct
        distinct_COLUMNS)
  have reset: "sheet_empty sh \<or> length (header sh) < 11 \<longrightarrow>
      read_and_normalize P sh = (\<lparr>columns = COLUMNS, rows = []\<rparr>, Some blank_sheet)"
    by (simp add: read_and_normalize_def length_COLUMNS blank_sheet_def)
  have kept: "\<not> sheet_empty sh \<and> 11 \<le> length (header sh) \<longrightarrow>
      snd (read_and_normalize P sh) = None
      \<and> length (rows (fst (read_and_normalize P sh))) = length (body sh)
      \<and> (\<forall>i<length (body sh).
            rows (fst (read_and_normalize P sh)) ! i = load_row P sh (body sh ! i))"
    by (simp add: read_and_normalize_def length_COLUMNS)
  have absent: "\<forall>row c. c \<notin> set (header sh) \<longrightarrow> column_cell sh row c = CNone"
    by (simp add: column_cell_def)
  have fields: "\<forall>row.
        id_col (load_row P sh row)
            = astype_int P (fillna0 (to_numeric P (column_cell sh row ''id'')))
        \<and> quantity (load_row P sh row)
            = astype_int P (fillna0 (to_numeric P (column_cell sh row ''quantity'')))
        \<and> buy_price (load_row P sh row) = fillna0 (to_numeric P (column_cell sh row ''buy_price''))
        \<and> sell_price (load_row P sh row) = fillna0 (to_numeric P (column_cell sh row ''sell_price''))
        \<and> pnl (load_row P sh row) = fillna0 (to_numeric P (column_cell sh row ''pnl''))
        \<and> open_date (load_row P sh row)
            = to_datetime P (column_of sh ''open_date'') (column_cell sh row ''open_date'')
        \<and> close_date (load_row P sh row)
            = to_datetime P (column_of sh ''close_date'') (column_cell sh row ''close_date'')
        \<and> symbol (load_row P sh row) = column_cell sh row ''symbol''
        \<and> status (load_row P sh row) = column_cell sh row ''status''
        \<and> notes_col (load_row P sh row) = column_cell sh row ''notes''"
    by (simp add: load_row_def)
  have miss: "\<forall>c. is_missing c \<longrightarrow>
        astype_int P (fillna0 (to_numeric P c)) = 0 \<and> fillna0 (to_numeric P c) = 0"
    using missing_coerced by blast
  have bad: "\<forall>s. num_of_str P s = None \<longrightarrow>
        astype_int P (fillna0 (to_numeric P (CStr s))) = 0 \<and> fillna0 (to_numeric P (CStr s)) = 0"
    by (simp add: fillna0_def astype_int_def trunc_int_def int64_def)
  have ints: "\<forall>i. float_int i \<longrightarrow>
        astype_int P (fillna0 (to_numeric P (CInt i))) = i
        \<and> fillna0 (to_numeric P (CInt i)) = of_int i"
    by (simp add: fillna0_def astype_int_of_int float_int_int64)
  have nums: "\<forall>x. fillna0 (to_numeric P (CNum x)) = x
        \<and> (int64 (trunc_int x) \<longrightarrow>
              astype_int P (fillna0 (to_numeric P (CNum x))) = (if 0 \<le> x then \<lfloor>x\<rfloor> else \<lceil>x\<rceil>))"
    by (simp add: fillna0_def astype_int_def) (simp add: trunc_int_def)
  have d1: "\<forall>col c. no_content c \<longrightarrow> to_datetime P col c = None"
    by (simp add: to_datetime_def)
  have d2: "\<forall>col c. \<not> list_all ymd_cell col \<and> date_of_cell P col c = None \<longrightarrow>
        to_datetime P col c = None"
    by (simp add: to_datetime_def)
  have d3: "\<forall>col t. list_all ymd_cell col \<and> CStr (strftime_ymd t) \<in> set col
          \<and> valid_ymd (year t) (month t) (day t) \<longrightarrow>
        to_datetime P col (CStr (strftime_ymd t)) = Some (t\<lparr>tod := 0\<rparr>)"
    using to_datetime_written by blast
  from cols reset kept absent fields miss bad ints nums d1 d2 d3 show ?thesis
    by (intro conjI)
qed

text \<open>Example: a row of missing and ill-typed cells.\<close>

lemma conn_read_dirty_sheet:
  "conn_read dirty_sheet = \<lparr>header = COLUMNS @ [''Unnamed: 11''], body =
     [[(''id'', CStr ''x''), (''symbol'', CNaN), (''buy_price'', CStr ''abc''),
       (''sell_price'', CNaN), (''quantity'', CNone), (''open_date'', CNaN),
       (''close_date'', CNaN), (''pnl'', CNaN), (''pnl_percent'', CNum 0),
       (''status'', CNaN), (''notes'', CNaN), (''Unnamed: 11'', CNaN)]]\<rparr>"
  by (simp add: conn_read_def dirty_sheet_def)

lemma read_dirty_sheet:
  "read_and_normalize no_text_lib (conn_read dirty_sheet) =
     (table_of [\<lparr>id_col = 0, symbol = CNaN, buy_price = 0, sell_price = 0, quantity = 0,
       open_date = None, close_date = None, pnl = 0, pnl_percent = CNum 0, status = CNaN,
       notes_col = CNaN\<rparr>], None)"
proof -
  have "loaded_columns (conn_read dirty_sheet) = COLUMNS"
    by (rule loaded_columns_all) (auto simp: conn_read_dirty_sheet)
  moreover have "map (load_row no_text_lib (conn_read dirty_sheet)) (body (conn_read dirty_sheet)) =
      [\<lparr>id_col = 0, symbol = CNaN, buy_price = 0, sell_price = 0, quantity = 0,
        open_date = None, close_date = None, pnl = 0, pnl_percent = CNum 0, status = CNaN,
        notes_col = CNaN\<rparr>]"
    by (simp add: conn_read_dirty_sheet load_row_def column_cell_def COLUMNS_members cell_at_def
        fillna0_def astype_int_def trunc_int_def int64_def to_datetime_def no_text_lib_def)
  moreover have "\<not> sheet_empty (conn_read dirty_sheet)"
    "length (header (conn_read dirty_sheet)) = 12"
    by (simp_all add: conn_read_dirty_sheet sheet_empty_def length_COLUMNS)
  ultimately show ?thesis
    by (simp add: read_and_normalize_def length_COLUMNS table_of_def)
qed

text \<open>
  Claim C5 as stated fails for the text columns: a row whose symbol, status and notes
  cells are NaN is loaded with these three fields NaN, not the empty string.
\<close>

theorem strings_not_defaulted_counterexample:
  "map notes_col (rows (fst (get_data no_text_lib \<lparr>store = dirty_sheet, cache = None\<rparr>))) = [CNaN]
   \<and> map symbol (rows (fst (get_data no_text_lib \<lparr>store = dirty_sheet, cache = None\<rparr>))) = [CNaN]
   \<and> map status (rows (fst (get_data no_text_lib \<lparr>store = dirty_sheet, cache = None\<rparr>))) = [CNaN]
   \<and> map id_col (rows (fst (get_data no_text_lib \<lparr>store = dirty_sheet, cache = None\<rparr>))) = [0]
   \<and> CNaN \<noteq> CStr []"
  by (simp add: get_data_cold read_dirty_sheet table_of_def)

theorem read_and_normalize_coerces_witness:
  "\<not> sheet_empty dirty_sheet \<and> 11 \<le> length (header dirty_sheet)
   \<and> set (columns (fst (read_and_normalize no_text_lib dirty_sheet))) = set COLUMNS
   \<and> snd (read_and_normalize no_text_lib dirty_sheet) = None
   \<and> rows (fst (read_and_normalize no_text_lib dirty_sheet)) ! 0
       = load_row no_text_lib dirty_sheet (body dirty_sheet ! 0)
   \<and> ''day'' \<notin> set (header dirty_sheet) \<and> column_cell dirty_sheet [] ''day'' = CNone
   \<and> is_missing CNaN \<and> fillna0 (to_numeric no_text_lib CNaN) = 0
   \<and> astype_int no_text_lib (fillna0 (to_numeric no_text_lib CNaN)) = 0
   \<and> num_of_str no_text_lib ''abc'' = None
   \<and> fillna0 (to_numeric no_text_lib (CStr ''abc'')) = 0
   \<and> float_int 3 \<and> astype_int no_text_lib (fillna0 (to_numeric no_text_lib (CInt 3))) = 3
   \<and> int64 (trunc_int (5 / 2))
   \<and> astype_int no_text_lib (fillna0 (to_numeric no_text_lib (CNum (5 / 2)))) = 2
   \<and> no_content (CStr []) \<and> to_datetime no_text_lib [CStr ''abc''] (CStr []) = None
   \<and> \<not> list_all ymd_cell [CStr ''abc'']
   \<and> date_of_cell no_text_lib [CStr ''abc''] (CStr ''abc'') = None
   \<and> to_datetime no_text_lib [CStr ''abc''] (CStr ''abc'') = None
   \<and> list_all ymd_cell [CNaN, CStr (strftime_ymd (to_datetime_date mar_1))]
   \<and> CStr (strftime_ymd (to_datetime_date mar_1))
        \<in> set [CNaN, CStr (strftime_ymd (to_datetime_date mar_1))]
   \<and> valid_ymd (year (to_datetime_date mar_1)) (month (to_datetime_date mar_1))
        (day (to_datetime_date mar_1))
   \<and> to_datetime no_text_lib [CNaN, CStr (strftime_ymd (to_datetime_date mar_1))]
        (CStr (strftime_ymd (to_datetime_date mar_1))) = Some (to_datetime_date mar_1)"
proof -
  have a: "\<not> sheet_empty dirty_sheet \<and> 11 \<le> length (header dirty_sheet)"
    by (simp add: dirty_sheet_def sheet_empty_def length_COLUMNS)
  have b: "0 < length (body dirty_sheet)" by (simp add: dirty_sheet_def)
  have c: "is_missing CNaN" by simp
  have d: "num_of_str no_text_lib ''abc'' = None" by (simp add: no_text_lib_def)
  have e: "''day'' \<notin> set (header dirty_sheet)" by (simp add: dirty_sheet_def COLUMNS_def)
  have f: "float_int 3" by (simp add: float_int_def)
  have g: "int64 (trunc_int (5 / 2))" by (simp add: trunc_int_def int64_def)
  have h: "no_content (CStr [])" by simp
  have p: "parse_ymd ''abc'' = None" by (simp add: parse_ymd_def)
  have i: "\<not> list_all ymd_cell [CStr ''abc'']" by (simp add: p)
  have j: "date_of_cell no_text_lib [CStr ''abc''] (CStr ''abc'') = None"
    by (simp add: no_text_lib_def)
  have v: "valid_ymd (year (to_datetime_date mar_1)) (month (to_datetime_date mar_1))
        (day (to_datetime_date mar_1))"
    using example_days_valid(2) by (simp add: valid_date_def)
  have k: "list_all ymd_cell [CNaN, CStr (strftime_ymd (to_datetime_date mar_1))]"
    using v by (simp add: parse_strftime)
  have m: "CStr (strftime_ymd (to_datetime_date mar_1))
        \<in> set [CNaN, CStr (strftime_ymd (to_datetime_date mar_1))]" by simp
  note t = read_and_normalize_coerces [of no_text_lib dirty_sheet]
  from t have r1: "set (columns (fst (read_and_normalize no_text_lib dirty_sheet))) = set COLUMNS"
    by (rule conjunct1)
  from t a b have r2: "snd (read_and_normalize no_text_lib dirty_sheet) = None"
    "rows (fst (read_and_normalize no_text_lib dirty_sheet)) ! 0
       = load_row no_text_lib dirty_sheet (body dirty_sheet ! 0)"
    by blast+
  from t e have r3: "column_cell dirty_sheet [] ''day'' = CNone" by blast
  from t c have r4: "fillna0 (to_numeric no_text_lib CNaN) = 0"
    "astype_int no_text_lib (fillna0 (to_numeric no_text_lib CNaN)) = 0"
    by blast+
  from t d have r5: "fillna0 (to_numeric no_text_lib (CStr ''abc'')) = 0" by blast
  from t f have r6: "astype_int no_text_lib (fillna0 (to_numeric no_text_lib (CInt 3))) = 3"
    by blast
  from t g have "astype_int no_text_lib (fillna0 (to_numeric no_text_lib (CNum (5 / 2))))
      = (if (0::rat) \<le> 5 / 2 then \<lfloor>5 / 2 :: rat\<rfloor> else \<lceil>5 / 2 :: rat\<rceil>)"
    by blast
  moreover have "\<lfloor>5 / 2 :: rat\<rfloor> = 2" by (rule floor_unique) simp_all
  ultimately have r7: "astype_int no_text_lib (fillna0 (to_numeric no_text_lib (CNum (5 / 2)))) = 2"
    by simp
  from t h have r8: "to_datetime no_text_lib [CStr ''abc''] (CStr []) = None" by blast
  from t i j have r9: "to_datetime no_text_lib [CStr ''abc''] (CStr ''abc'') = None" by blast
  from t k m v have "to_datetime no_text_lib [CNaN, CStr (strftime_ymd (to_datetime_date mar_1))]
        (CStr (strftime_ymd (to_datetime_date mar_1))) = Some ((to_datetime_date mar_1)\<lparr>tod := 0\<rparr>)"
    by blast
  then have r10: "to_datetime no_text_lib [CNaN, CStr (strftime_ymd (to_datetime_date mar_1))]
        (CStr (strftime_ymd (to_datetime_date mar_1))) = Some (to_datetime_date mar_1)"
    by (simp add: to_datetime_date_def)
  from a r1 r2 e r3 c r4 d r5 f r6 g r7 h r8 i j r9 k m v r10 show ?thesis by blast
qed

end
